theory Spec2Isabelle
  imports Complex_Main
begin

text \<open>
  A model of the chat proxy of \<^verbatim>\<open>src/server.js\<close>: the helper \<^verbatim>\<open>callOpenRouter\<close> and the
  routes \<^verbatim>\<open>POST /api/chat\<close> and \<^verbatim>\<open>POST /api/compare\<close>, followed by the properties the
  specification states of them. Of the variants of the server in the repository this is the
  one the specification describes (it validates the messages, clamps the parameters, limits
  a comparison to five models and gives each call 60 seconds); the two earlier variants
  under \<^verbatim>\<open>src/unnamed\<close> only default the parameters and know no limit of models.
  Line numbers refer to \<^verbatim>\<open>src/server.js\<close>.
\<close>

section \<open>JavaScript values\<close>

text \<open>
  The server works on parsed JSON: the request body that
  \<^verbatim>\<open>express.json()\<close> hands to a route, and the payload that \<^verbatim>\<open>axios\<close> hands back
  from the upstream service. A value is modelled as the JavaScript value it is.
  \<open>Undefined\<close> is what reading a missing property gives; \<open>NaN\<close> is what a failed
  numeric conversion gives. Finite numbers are exact rationals (rounding to a double and
  the infinities are not modelled). An object is the list of its own properties, the
  first binding of a key being the property's value.
\<close>

datatype jsval =
    Undefined
  | Null
  | Bool bool
  | Num rat
  | NaN
  | Str string
  | Arr "jsval list"
  | Obj "(string \<times> jsval) list"

text \<open>Truthiness, as \<^verbatim>\<open>!x\<close>, \<^verbatim>\<open>x && y\<close>, \<^verbatim>\<open>x || y\<close> and \<^verbatim>\<open>if (x)\<close> test it.\<close>

fun truthy :: "jsval \<Rightarrow> bool" where
  "truthy Undefined = False"
| "truthy Null = False"
| "truthy (Bool b) = b"
| "truthy (Num r) = (r \<noteq> 0)"
| "truthy NaN = False"
| "truthy (Str s) = (s \<noteq> [])"
| "truthy (Arr xs) = True"
| "truthy (Obj kvs) = True"

text \<open>\<^verbatim>\<open>a || b\<close> on values.\<close>

definition js_or :: "jsval \<Rightarrow> jsval \<Rightarrow> jsval" where
  "js_or a b = (if truthy a then a else b)"

fun nullish :: "jsval \<Rightarrow> bool" where
  "nullish Undefined = True"
| "nullish Null = True"
| "nullish v = False"

fun isArray :: "jsval \<Rightarrow> bool" where
  "isArray (Arr xs) = True"
| "isArray v = False"

text \<open>The elements a \<^verbatim>\<open>for (const x of a)\<close> loop or \<^verbatim>\<open>a.map\<close> visits, for an array.\<close>

fun elements :: "jsval \<Rightarrow> jsval list" where
  "elements (Arr xs) = xs"
| "elements v = []"

subsection \<open>Errors\<close>

text \<open>
  A thrown error, with the properties the server reads: \<^verbatim>\<open>message\<close>, \<^verbatim>\<open>status\<close>,
  \<^verbatim>\<open>data\<close>, \<^verbatim>\<open>code\<close> and \<^verbatim>\<open>response\<close> (the status and payload of an upstream answer
  outside 2xx). A property that is not set reads \<open>Undefined\<close>.
\<close>

record js_error =
  e_message :: string
  e_status :: jsval
  e_data :: jsval
  e_code :: jsval
  e_response :: "(jsval \<times> jsval) option"

text \<open>\<^verbatim>\<open>new Error(msg)\<close>.\<close>

definition Error :: "string \<Rightarrow> js_error" where
  "Error msg =
     \<lparr>e_message = msg, e_status = Undefined, e_data = Undefined, e_code = Undefined,
      e_response = None\<rparr>"

text \<open>The \<^verbatim>\<open>TypeError\<close> of reading property \<open>k\<close> of \<^verbatim>\<open>null\<close> or \<^verbatim>\<open>undefined\<close>
  (the message is Node's).\<close>

definition TypeError :: "jsval \<Rightarrow> string \<Rightarrow> js_error" where
  "TypeError v k =
     Error (''Cannot read properties of '' @ (if v = Null then ''null'' else ''undefined'')
            @ '' (reading '' @ [CHR 0x27] @ k @ [CHR 0x27] @ '')'')"

text \<open>The \<^verbatim>\<open>TypeError\<close> of \<^verbatim>\<open>const { messages, ... } = req.body\<close> when the body is
  \<^verbatim>\<open>null\<close> or \<^verbatim>\<open>undefined\<close>.\<close>

definition destructure_error :: "jsval \<Rightarrow> js_error" where
  "destructure_error v =
     Error (''Cannot destructure property '' @ [CHR 0x27] @ ''messages'' @ [CHR 0x27]
            @ '' of '' @ [CHR 0x27] @ ''req.body'' @ [CHR 0x27] @ '' as it is ''
            @ (if v = Null then ''null'' else ''undefined'') @ ''.'')"

text \<open>
  The \<^verbatim>\<open>TypeError\<close> of converting an object to a string or a number when the object has
  an own property \<^verbatim>\<open>toString\<close>. A parsed JSON value is never a function, so that property
  is not callable, and the inherited \<^verbatim>\<open>valueOf\<close> returns the object itself: no method
  gives a primitive value (the message is Node's).
\<close>

definition primitive_error :: js_error where
  "primitive_error = Error ''Cannot convert object to primitive value''"

subsection \<open>Conversions\<close>

text \<open>
  Two conversions of the language are not part of this repository and depend on the
  textual form of numbers: reading a number from a string, and printing a number. They
  are parameters of the model. \<open>StringToNumber\<close> gives \<open>None\<close> where JavaScript gives
  \<^verbatim>\<open>NaN\<close>.
\<close>

record js_builtins =
  StringToNumber :: "string \<Rightarrow> rat option"
  NumberToString :: "rat \<Rightarrow> string"

fun join_with :: "string \<Rightarrow> string list \<Rightarrow> string" where
  "join_with sep [] = []"
| "join_with sep [s] = s"
| "join_with sep (s # t # ts) = s @ sep @ join_with sep (t # ts)"

text \<open>The results of a sequence of steps, up to the first that throws.\<close>

fun collect :: "('e + 'a) list \<Rightarrow> 'e + 'a list" where
  "collect [] = Inr []"
| "collect (Inl e # rs) = Inl e"
| "collect (Inr a # rs) = (case collect rs of Inl e \<Rightarrow> Inl e | Inr as \<Rightarrow> Inr (a # as))"

text \<open>
  \<^verbatim>\<open>String(v)\<close>, the conversion behind a template literal \<^verbatim>\<open>`${v}`\<close>, \<^verbatim>\<open>new Error(v)\<close> and
  \<^verbatim>\<open>Array.prototype.join\<close>. An array prints its elements joined by commas, \<^verbatim>\<open>null\<close> and
  \<^verbatim>\<open>undefined\<close> elements as the empty string. An object prints as
  \<^verbatim>\<open>[object Object]\<close>, unless it has an own property \<^verbatim>\<open>toString\<close>: then the conversion
  throws.
\<close>

fun ToString :: "js_builtins \<Rightarrow> jsval \<Rightarrow> js_error + string" where
  "ToString js Undefined = Inr ''undefined''"
| "ToString js Null = Inr ''null''"
| "ToString js (Bool b) = Inr (if b then ''true'' else ''false'')"
| "ToString js (Num r) = Inr (NumberToString js r)"
| "ToString js NaN = Inr ''NaN''"
| "ToString js (Str s) = Inr s"
| "ToString js (Arr xs) =
     (case collect (map (\<lambda>x. if nullish x then Inr [] else ToString js x) xs) of
        Inl e \<Rightarrow> Inl e
      | Inr ss \<Rightarrow> Inr (join_with '','' ss))"
| "ToString js (Obj kvs) =
     (if map_of kvs ''toString'' \<noteq> None then Inl primitive_error
      else Inr ''[object Object]'')"

text \<open>\<^verbatim>\<open>xs.join(sep)\<close> on the elements of an array.\<close>

definition Array_join :: "js_builtins \<Rightarrow> string \<Rightarrow> jsval list \<Rightarrow> js_error + string" where
  "Array_join js sep xs =
     (case collect (map (\<lambda>x. if nullish x then Inr [] else ToString js x) xs) of
        Inl e \<Rightarrow> Inl e
      | Inr ss \<Rightarrow> Inr (join_with sep ss))"

text \<open>
  \<^verbatim>\<open>Number(v)\<close>, the conversion behind \<^verbatim>\<open>v > 0\<close>, \<^verbatim>\<open>Math.min\<close> and \<^verbatim>\<open>Math.max\<close>.
  The result is \<open>Num r\<close> or \<open>NaN\<close>. An array converts through its string; an object
  converts to \<open>NaN\<close> (through \<^verbatim>\<open>[object Object]\<close>), unless it has an own property
  \<^verbatim>\<open>toString\<close>: then the conversion throws.
\<close>

definition of_string :: "js_builtins \<Rightarrow> string \<Rightarrow> jsval" where
  "of_string js s = (case StringToNumber js s of None \<Rightarrow> NaN | Some r \<Rightarrow> Num r)"

fun ToNumber :: "js_builtins \<Rightarrow> jsval \<Rightarrow> js_error + jsval" where
  "ToNumber js Undefined = Inr NaN"
| "ToNumber js Null = Inr (Num 0)"
| "ToNumber js (Bool b) = Inr (Num (if b then 1 else 0))"
| "ToNumber js (Num r) = Inr (Num r)"
| "ToNumber js NaN = Inr NaN"
| "ToNumber js (Str s) = Inr (of_string js s)"
| "ToNumber js (Arr xs) =
     (case ToString js (Arr xs) of Inl e \<Rightarrow> Inl e | Inr s \<Rightarrow> Inr (of_string js s))"
| "ToNumber js (Obj kvs) =
     (if map_of kvs ''toString'' \<noteq> None then Inl primitive_error else Inr NaN)"

text \<open>\<^verbatim>\<open>v > 0\<close>: false when \<open>v\<close> converts to \<open>NaN\<close>.\<close>

definition gt_zero :: "js_builtins \<Rightarrow> jsval \<Rightarrow> js_error + bool" where
  "gt_zero js v =
     (case ToNumber js v of
        Inl e \<Rightarrow> Inl e
      | Inr n \<Rightarrow> Inr (case n of Num r \<Rightarrow> 0 < r | _ \<Rightarrow> False))"

text \<open>\<^verbatim>\<open>Math.min(a, b)\<close> and \<^verbatim>\<open>Math.max(a, b)\<close>: both arguments are converted, in
  order; the result is \<^verbatim>\<open>NaN\<close> as soon as one of them is.\<close>

definition Math_min :: "js_builtins \<Rightarrow> jsval \<Rightarrow> jsval \<Rightarrow> js_error + jsval" where
  "Math_min js a b =
     (case ToNumber js a of
        Inl e \<Rightarrow> Inl e
      | Inr x \<Rightarrow>
          (case ToNumber js b of
             Inl e \<Rightarrow> Inl e
           | Inr y \<Rightarrow>
               Inr (case (x, y) of (Num p, Num q) \<Rightarrow> Num (min p q) | _ \<Rightarrow> NaN)))"

definition Math_max :: "js_builtins \<Rightarrow> jsval \<Rightarrow> jsval \<Rightarrow> js_error + jsval" where
  "Math_max js a b =
     (case ToNumber js a of
        Inl e \<Rightarrow> Inl e
      | Inr x \<Rightarrow>
          (case ToNumber js b of
             Inl e \<Rightarrow> Inl e
           | Inr y \<Rightarrow>
               Inr (case (x, y) of (Num p, Num q) \<Rightarrow> Num (max p q) | _ \<Rightarrow> NaN)))"

subsection \<open>Property access\<close>

text \<open>
  \<open>js_prop v k\<close> is \<^verbatim>\<open>v.k\<close> for a value that is neither \<^verbatim>\<open>null\<close> nor \<^verbatim>\<open>undefined\<close> and a
  name \<open>k\<close> that no prototype defines (all names read here are such: \<^verbatim>\<open>messages\<close>,
  \<^verbatim>\<open>role\<close>, \<^verbatim>\<open>content\<close>, \<^verbatim>\<open>choices\<close>, ...). \<open>get\<close> is the plain read, which throws on
  \<^verbatim>\<open>null\<close> and \<^verbatim>\<open>undefined\<close>; \<open>opt_get\<close> is \<^verbatim>\<open>v?.k\<close>.
\<close>

fun js_prop :: "jsval \<Rightarrow> string \<Rightarrow> jsval" where
  "js_prop (Obj kvs) k = (case map_of kvs k of None \<Rightarrow> Undefined | Some v \<Rightarrow> v)"
| "js_prop v k = Undefined"

definition get :: "jsval \<Rightarrow> string \<Rightarrow> js_error + jsval" where
  "get v k = (if nullish v then Inl (TypeError v k) else Inr (js_prop v k))"

definition opt_get :: "jsval \<Rightarrow> string \<Rightarrow> jsval" where
  "opt_get v k = (if nullish v then Undefined else js_prop v k)"

text \<open>\<^verbatim>\<open>v[0]\<close> for a value that is neither \<^verbatim>\<open>null\<close> nor \<^verbatim>\<open>undefined\<close>.\<close>

fun index0 :: "jsval \<Rightarrow> jsval" where
  "index0 (Arr []) = Undefined"
| "index0 (Arr (x # xs)) = x"
| "index0 (Str []) = Undefined"
| "index0 (Str (c # cs)) = Str [c]"
| "index0 (Obj kvs) = js_prop (Obj kvs) ''0''"
| "index0 v = Undefined"

section \<open>Configuration and the upstream service\<close>

text \<open>
  The process environment the server reads once at start: \<^verbatim>\<open>OPENROUTER_API_KEY\<close> and
  \<^verbatim>\<open>MODEL\<close> (\<open>None\<close> when the variable is not set).
\<close>

record env =
  OPENROUTER_API_KEY :: "string option"
  MODEL :: "string option"

text \<open>\<^verbatim>\<open>!OPENROUTER_API_KEY\<close>: the variable is unset or empty.\<close>

definition api_key_missing :: "env \<Rightarrow> bool" where
  "api_key_missing e = (case OPENROUTER_API_KEY e of None \<Rightarrow> True | Some k \<Rightarrow> k = [])"

text \<open>\<^verbatim>\<open>const DEFAULT_MODEL = process.env.MODEL || 'openai/gpt-oss-20b:free'\<close>.\<close>

definition DEFAULT_MODEL :: "env \<Rightarrow> string" where
  "DEFAULT_MODEL e =
     (case MODEL e of
        None \<Rightarrow> ''openai/gpt-oss-20b:free''
      | Some m \<Rightarrow> if m \<noteq> [] then m else ''openai/gpt-oss-20b:free'')"

text \<open>
  The body that \<^verbatim>\<open>callOpenRouter\<close> posts (\<^verbatim>\<open>openRouterRequest\<close>); the URL, the headers
  and the 60 second timeout are fixed and left out.
\<close>

record or_request =
  rq_model :: jsval
  rq_messages :: jsval
  rq_max_tokens :: jsval
  rq_temperature :: jsval

text \<open>
  What \<^verbatim>\<open>await axios.post(...)\<close> comes to: the promise is fulfilled with a response whose
  payload is \<^verbatim>\<open>response.data\<close>, or rejected with an error (carrying \<^verbatim>\<open>response\<close> when
  the upstream answered outside 2xx, \<^verbatim>\<open>code\<close> when the transport failed). The upstream
  service is a function from the posted body to that outcome.
\<close>

datatype axios_outcome = Fulfilled jsval | Rejected js_error

type_synonym upstream = "or_request \<Rightarrow> axios_outcome"

section \<open>callOpenRouter\<close>

text \<open>What \<^verbatim>\<open>callOpenRouter\<close> returns: \<^verbatim>\<open>{message, usage, finish_reason}\<close>.\<close>

record reply =
  rp_message :: jsval
  rp_usage :: jsval
  rp_finish_reason :: jsval

text \<open>
  The loop over the messages (lines 82 to 89): the error the first offending message
  throws, if any. Reading \<^verbatim>\<open>msg.role\<close> throws by itself when \<open>msg\<close> is \<^verbatim>\<open>null\<close>.
\<close>

fun validate_messages :: "jsval list \<Rightarrow> js_error option" where
  "validate_messages [] = None"
| "validate_messages (msg # rest) =
     (case get msg ''role'' of
        Inl e \<Rightarrow> Some e
      | Inr role \<Rightarrow>
          if \<not> truthy role \<or> \<not> truthy (js_prop msg ''content'')
          then Some (Error ''Each message must have role and content'')
          else if role \<notin> set [Str ''user'', Str ''assistant'', Str ''system'']
          then Some (Error ''Message role must be user, assistant, or system'')
          else validate_messages rest)"

text \<open>
  Lines 108 to 116, on the payload of a fulfilled call. \<^verbatim>\<open>response.data.choices\<close> throws
  when the payload is \<^verbatim>\<open>null\<close>; \<^verbatim>\<open>choices[0].message.content\<close> throws when
  \<^verbatim>\<open>choices[0]\<close> has no \<^verbatim>\<open>message\<close>.
\<close>

definition extract_reply :: "jsval \<Rightarrow> js_error + reply" where
  "extract_reply data =
     (case get data ''choices'' of
        Inl e \<Rightarrow> Inl e
      | Inr choices \<Rightarrow>
          if truthy choices \<and> truthy (index0 choices)
          then (case get (js_prop (index0 choices) ''message'') ''content'' of
                  Inl e \<Rightarrow> Inl e
                | Inr content \<Rightarrow>
                    Inr \<lparr>rp_message = content,
                         rp_usage = js_or (js_prop data ''usage'') (Obj []),
                         rp_finish_reason = js_prop (index0 choices) ''finish_reason''\<rparr>)
          else Inl (Error ''Unexpected response format from OpenRouter''))"

text \<open>
  The \<^verbatim>\<open>catch\<close> of \<^verbatim>\<open>callOpenRouter\<close> (lines 117 to 126): an error with a \<^verbatim>\<open>response\<close>
  is replaced by a new error carrying the upstream status and payload, any other error
  is thrown again as it is. \<^verbatim>\<open>new Error(m)\<close> converts \<open>m\<close> to a string; when that
  conversion throws, its \<^verbatim>\<open>TypeError\<close> is what leaves the \<^verbatim>\<open>catch\<close>.
\<close>

definition rethrow :: "js_builtins \<Rightarrow> js_error \<Rightarrow> js_error" where
  "rethrow js e =
     (case e_response e of
        None \<Rightarrow> e
      | Some (st, data) \<Rightarrow>
          (case ToString js (js_or (opt_get (opt_get data ''error'') ''message'')
                                   (Str ''OpenRouter API error'')) of
             Inl thrown \<Rightarrow> thrown
           | Inr msg \<Rightarrow> (Error msg)\<lparr>e_status := st, e_data := data\<rparr>))"

text \<open>
  \<^verbatim>\<open>async function callOpenRouter(messages, model, maxTokens = 1000, temperature = 0.7)\<close>.
  The result is the list of bodies posted upstream (empty or one body) and what the
  returned promise settles to: \<open>Inl\<close> the error it is rejected with, \<open>Inr\<close> the reply it
  is fulfilled with.
\<close>

definition callOpenRouter ::
  "js_builtins \<Rightarrow> upstream \<Rightarrow> jsval \<Rightarrow> jsval \<Rightarrow> jsval \<Rightarrow> jsval
     \<Rightarrow> or_request list \<times> (js_error + reply)" where
  "callOpenRouter js post messages model maxTokens temperature =
     (if \<not> isArray messages \<or> length (elements messages) = 0
      then ([], Inl (rethrow js (Error ''Messages must be a non-empty array'')))
      else
        (case validate_messages (elements messages) of
           Some e \<Rightarrow> ([], Inl (rethrow js e))
         | None \<Rightarrow>
             (let openRouterRequest =
                \<lparr>rq_model = model,
                 rq_messages = messages,
                 rq_max_tokens = (if maxTokens = Undefined then Num 1000 else maxTokens),
                 rq_temperature =
                   (if temperature = Undefined then Num (7 / 10) else temperature)\<rparr>
              in (case post openRouterRequest of
                    Rejected e \<Rightarrow> ([openRouterRequest], Inl (rethrow js e))
                  | Fulfilled data \<Rightarrow>
                      (case extract_reply data of
                         Inl e \<Rightarrow> ([openRouterRequest], Inl (rethrow js e))
                       | Inr result \<Rightarrow> ([openRouterRequest], Inr result))))))"

section \<open>Responses and request normalisation\<close>

text \<open>
  One entry of the compare response. A property the source does not set reads
  \<open>Undefined\<close>.
\<close>

record model_result =
  r_success :: bool
  r_model :: jsval
  r_message :: jsval
  r_usage :: jsval
  r_finish_reason :: jsval
  r_error :: jsval
  r_error_type :: jsval

text \<open>
  The JSON a route sends: an error object \<^verbatim>\<open>{error, message}\<close>, the chat answer
  \<^verbatim>\<open>{success, message, model, usage, finish_reason}\<close>, or the compare answer
  \<^verbatim>\<open>{success, results, timestamp}\<close> (the timestamp, a clock reading, is left out).
\<close>

datatype payload =
    ErrorJson string jsval
  | ChatJson bool jsval jsval jsval jsval
  | CompareJson bool "model_result list"

record response =
  res_status :: jsval
  res_json :: payload

definition reject :: "rat \<Rightarrow> string \<Rightarrow> string \<Rightarrow> response" where
  "reject code err msg = \<lparr>res_status = Num code, res_json = ErrorJson err (Str msg)\<rparr>"

text \<open>The top-level \<^verbatim>\<open>success\<close> property of a response (an error object has none).\<close>

fun top_success :: "response \<Rightarrow> jsval" where
  "top_success r =
     (case res_json r of
        ErrorJson err msg \<Rightarrow> Undefined
      | ChatJson ok msg mdl usage fin \<Rightarrow> Bool ok
      | CompareJson ok results \<Rightarrow> Bool ok)"

text \<open>
  \<^verbatim>\<open>max_tokens && max_tokens > 0 ? Math.min(max_tokens, 4000) : 1000\<close> and
  \<^verbatim>\<open>temperature !== undefined ? Math.max(0, Math.min(temperature, 2)) : 0.7\<close>
  (lines 162, 163 and 287, 288): \<open>Inr\<close> the value, or \<open>Inl\<close> the error a conversion throws.
\<close>

definition validatedMaxTokens :: "js_builtins \<Rightarrow> jsval \<Rightarrow> js_error + jsval" where
  "validatedMaxTokens js max_tokens =
     (if truthy max_tokens
      then (case gt_zero js max_tokens of
              Inl e \<Rightarrow> Inl e
            | Inr True \<Rightarrow> Math_min js max_tokens (Num 4000)
            | Inr False \<Rightarrow> Inr (Num 1000))
      else Inr (Num 1000))"

definition validatedTemperature :: "js_builtins \<Rightarrow> jsval \<Rightarrow> js_error + jsval" where
  "validatedTemperature js temperature =
     (if temperature \<noteq> Undefined
      then (case Math_min js temperature (Num 2) of
              Inl e \<Rightarrow> Inl e
            | Inr m \<Rightarrow> Math_max js (Num 0) m)
      else Inr (Num (7 / 10)))"

text \<open>
  The loop both routes run over the messages (lines 143 to 150 and 269 to 276): \<open>Inr True\<close>
  when some message makes the route answer 400, \<open>Inr False\<close> when the loop runs to its
  end, \<open>Inl\<close> the \<^verbatim>\<open>TypeError\<close> of a \<^verbatim>\<open>null\<close> message.
\<close>

fun bad_format :: "jsval list \<Rightarrow> js_error + bool" where
  "bad_format [] = Inr False"
| "bad_format (msg # rest) =
     (case get msg ''role'' of
        Inl e \<Rightarrow> Inl e
      | Inr role \<Rightarrow>
          if \<not> truthy role \<or> \<not> truthy (js_prop msg ''content'') then Inr True
          else bad_format rest)"

section \<open>POST /api/chat\<close>

text \<open>
  The \<^verbatim>\<open>catch\<close> of the chat route (lines 180 to 237), the error classifier: the response
  for an error thrown in the route. \<^verbatim>\<open>data?.error?.message\<close> is read with \<open>opt_get\<close>.
\<close>

definition chat_catch :: "js_error \<Rightarrow> response" where
  "chat_catch error =
     (if truthy (e_status error)
      then
        (let status = e_status error; data = e_data error in
         if status = Num 401
         then reject 401 ''Authentication failed'' ''Invalid OpenRouter API key''
         else if status = Num 402
         then reject 402 ''Payment required'' ''Insufficient credits on OpenRouter account''
         else if status = Num 429
         then reject 429 ''Rate limit exceeded'' ''Too many requests to OpenRouter API''
         else if status = Num 404
         then reject 404 ''Model not found'' ''The specified model is not available''
         else if status = Num 400
         then \<lparr>res_status = Num 400,
               res_json = ErrorJson ''Bad request''
                 (js_or (opt_get (opt_get data ''error'') ''message'')
                        (Str ''Invalid request to OpenRouter API''))\<rparr>
         else \<lparr>res_status = status,
               res_json = ErrorJson ''OpenRouter API error''
                 (js_or (opt_get (opt_get data ''error'') ''message'')
                        (Str ''Unknown error occurred''))\<rparr>)
      else if e_code error = Str ''ECONNABORTED'' \<or> e_code error = Str ''ETIMEDOUT''
      then reject 504 ''Gateway timeout'' ''Request to OpenRouter API timed out''
      else if e_code error = Str ''ECONNREFUSED'' \<or> e_code error = Str ''ENOTFOUND''
      then reject 503 ''Service unavailable'' ''Unable to reach OpenRouter API''
      else \<lparr>res_status = Num 500,
            res_json = ErrorJson ''Internal server error'' (Str (e_message error))\<rparr>)"

text \<open>
  The \<^verbatim>\<open>try\<close> block of the route (lines 131 to 179), from the request body: the bodies
  posted upstream, and the response sent (\<open>Inr\<close>) or the error thrown (\<open>Inl\<close>).
  Destructuring \<^verbatim>\<open>req.body\<close> throws when the body is \<^verbatim>\<open>undefined\<close>. After the key check,
  the two parameter lines and the template literal of the log line (line 165, which
  converts \<^verbatim>\<open>selectedModel\<close> to a string) can throw, before anything is posted.
\<close>

definition chat_try ::
  "js_builtins \<Rightarrow> env \<Rightarrow> upstream \<Rightarrow> jsval \<Rightarrow> or_request list \<times> (js_error + response)" where
  "chat_try js e post body =
     (if nullish body then ([], Inl (destructure_error body))
      else
        (let messages = js_prop body ''messages'';
               model = js_prop body ''model'';
               max_tokens = js_prop body ''max_tokens'';
               temperature = js_prop body ''temperature''
           in
           if \<not> truthy messages \<or> \<not> isArray messages \<or> length (elements messages) = 0
           then ([], Inr (reject 400 ''Invalid request''
                            ''Messages array is required and must not be empty''))
           else
             (case bad_format (elements messages) of
                Inl err \<Rightarrow> ([], Inl err)
              | Inr True \<Rightarrow>
                  ([], Inr (reject 400 ''Invalid message format''
                              ''Each message must have role and content fields''))
              | Inr False \<Rightarrow>
                  if api_key_missing e
                  then ([], Inr (reject 500 ''Server configuration error''
                                   ''OpenRouter API key not configured''))
                  else
                    (let selectedModel = js_or model (Str (DEFAULT_MODEL e)) in
                     (case validatedMaxTokens js max_tokens of
                        Inl err \<Rightarrow> ([], Inl err)
                      | Inr maxTokens \<Rightarrow>
                     (case validatedTemperature js temperature of
                        Inl err \<Rightarrow> ([], Inl err)
                      | Inr temp \<Rightarrow>
                     (case ToString js selectedModel of
                        Inl err \<Rightarrow> ([], Inl err)
                      | Inr logged \<Rightarrow>
                     (case callOpenRouter js post messages selectedModel maxTokens temp of
                        (sent, Inl err) \<Rightarrow> (sent, Inl err)
                      | (sent, Inr result) \<Rightarrow>
                          (sent, Inr \<lparr>res_status = Num 200,
                                      res_json = ChatJson True (rp_message result) selectedModel
                                        (rp_usage result) (rp_finish_reason result)\<rparr>)))))))))"

text \<open>The route: the bodies posted upstream and the response the client gets.\<close>

definition chat :: "js_builtins \<Rightarrow> env \<Rightarrow> upstream \<Rightarrow> jsval \<Rightarrow> or_request list \<times> response" where
  "chat js e post body =
     (case chat_try js e post body of
        (sent, Inl err) \<Rightarrow> (sent, chat_catch err)
      | (sent, Inr res) \<Rightarrow> (sent, res))"

section \<open>POST /api/compare\<close>

text \<open>
  \<^verbatim>\<open>Promise.all\<close> over promises that are all fulfilled in the end. \<open>values\<close> holds, by
  position, the value each promise is fulfilled with; \<open>order\<close> lists the positions in
  the order in which the promises settle. Each settlement stores its value in the result
  slot of its position; the joint promise is fulfilled once every slot is filled, and
  stays pending (\<open>None\<close>) otherwise.
\<close>

definition settle :: "'a list \<Rightarrow> nat \<Rightarrow> 'a option list \<Rightarrow> 'a option list" where
  "settle values i slots = (if i < length values then slots[i := Some (values ! i)] else slots)"

definition Promise_all :: "'a list \<Rightarrow> nat list \<Rightarrow> 'a list option" where
  "Promise_all values order =
     (let slots = fold (settle values) order (replicate (length values) None)
      in if list_all (\<lambda>s. s \<noteq> None) slots then Some (map the slots) else None)"

text \<open>
  One leg of the fan-out (lines 293 to 309): the call for one model, its outcome turned
  into an entry by the \<^verbatim>\<open>then\<close> or the \<^verbatim>\<open>catch\<close> callback.
\<close>

definition leg_then :: "jsval \<Rightarrow> reply \<Rightarrow> model_result" where
  "leg_then model result =
     \<lparr>r_success = True, r_model = model, r_message = rp_message result,
      r_usage = rp_usage result, r_finish_reason = rp_finish_reason result,
      r_error = Undefined, r_error_type = Undefined\<rparr>"

definition leg_catch :: "jsval \<Rightarrow> js_error \<Rightarrow> model_result" where
  "leg_catch model error =
     \<lparr>r_success = False, r_model = model,
      r_message = Str (if e_message error \<noteq> [] then e_message error else ''Request failed''),
      r_usage = Undefined, r_finish_reason = Undefined,
      r_error = Bool True,
      r_error_type = js_or (e_status error) (Str ''unknown'')\<rparr>"

definition leg ::
  "js_builtins \<Rightarrow> upstream \<Rightarrow> jsval \<Rightarrow> jsval \<Rightarrow> jsval \<Rightarrow> jsval
     \<Rightarrow> or_request list \<times> model_result" where
  "leg js post messages maxTokens temperature model =
     (case callOpenRouter js post messages model maxTokens temperature of
        (sent, Inr result) \<Rightarrow> (sent, leg_then model result)
      | (sent, Inl error) \<Rightarrow> (sent, leg_catch model error))"

text \<open>
  \<^verbatim>\<open>const promises = models.map(model => callOpenRouter(...).then(...).catch(...))\<close>:
  one leg per model, in the order of the list. \<open>post i\<close> is the upstream as the call for
  \<^verbatim>\<open>models[i]\<close> meets it. Each leg posts when it is created, before any leg settles.
\<close>

definition promises ::
  "js_builtins \<Rightarrow> (nat \<Rightarrow> upstream) \<Rightarrow> jsval \<Rightarrow> jsval \<Rightarrow> jsval \<Rightarrow> jsval list
     \<Rightarrow> (or_request list \<times> model_result) list" where
  "promises js post messages maxTokens temperature models =
     map (\<lambda>(i, model). leg js (post i) messages maxTokens temperature model)
         (enumerate 0 models)"

text \<open>
  The \<^verbatim>\<open>try\<close> block of the route (lines 242 to 320). \<open>order\<close> is the order in which
  the legs settle. The result is the bodies posted and \<open>Some\<close> outcome of the block, or
  \<open>None\<close> while \<^verbatim>\<open>Promise.all\<close> is pending. After the key check, the two parameter lines
  and the \<^verbatim>\<open>models.join(', ')\<close> of the log line (line 290) can throw, before any leg is
  created.
\<close>

definition compare_try ::
  "js_builtins \<Rightarrow> env \<Rightarrow> (nat \<Rightarrow> upstream) \<Rightarrow> nat list \<Rightarrow> jsval
     \<Rightarrow> or_request list \<times> (js_error + response) option" where
  "compare_try js e post order body =
     (if nullish body then ([], Some (Inl (destructure_error body)))
      else
        (let messages = js_prop body ''messages'';
               models = js_prop body ''models'';
               max_tokens = js_prop body ''max_tokens'';
               temperature = js_prop body ''temperature''
           in
           if \<not> truthy messages \<or> \<not> isArray messages \<or> length (elements messages) = 0
           then ([], Some (Inr (reject 400 ''Invalid request''
                                  ''Messages array is required and must not be empty'')))
           else if \<not> truthy models \<or> \<not> isArray models \<or> length (elements models) = 0
           then ([], Some (Inr (reject 400 ''Invalid request''
                                  ''Models array is required for compare mode'')))
           else if length (elements models) > 5
           then ([], Some (Inr (reject 400 ''Too many models''
                                  ''Maximum 5 models allowed in compare mode'')))
           else
             (case bad_format (elements messages) of
                Inl err \<Rightarrow> ([], Some (Inl err))
              | Inr True \<Rightarrow>
                  ([], Some (Inr (reject 400 ''Invalid message format''
                                    ''Each message must have role and content fields'')))
              | Inr False \<Rightarrow>
                  if api_key_missing e
                  then ([], Some (Inr (reject 500 ''Server configuration error''
                                         ''OpenRouter API key not configured'')))
                  else
                    (case validatedMaxTokens js max_tokens of
                       Inl err \<Rightarrow> ([], Some (Inl err))
                     | Inr maxTokens \<Rightarrow>
                    (case validatedTemperature js temperature of
                       Inl err \<Rightarrow> ([], Some (Inl err))
                     | Inr temp \<Rightarrow>
                    (case Array_join js '', '' (elements models) of
                       Inl err \<Rightarrow> ([], Some (Inl err))
                     | Inr logged \<Rightarrow>
                    (let legs = promises js post messages maxTokens temp (elements models)
                     in
                     (concat (map fst legs),
                      (case Promise_all (map snd legs) order of
                         None \<Rightarrow> None
                       | Some results \<Rightarrow>
                           Some (Inr \<lparr>res_status = Num 200,
                                      res_json = CompareJson True results\<rparr>))))))))))"

text \<open>
  The route with its \<^verbatim>\<open>catch\<close> (lines 321 to 328): the bodies posted upstream and the
  response, if one is sent.
\<close>

definition compare ::
  "js_builtins \<Rightarrow> env \<Rightarrow> (nat \<Rightarrow> upstream) \<Rightarrow> nat list \<Rightarrow> jsval
     \<Rightarrow> or_request list \<times> response option" where
  "compare js e post order body =
     (case compare_try js e post order body of
        (sent, None) \<Rightarrow> (sent, None)
      | (sent, Some (Inl err)) \<Rightarrow>
          (sent, Some \<lparr>res_status = Num 500,
                       res_json = ErrorJson ''Internal server error'' (Str (e_message err))\<rparr>)
      | (sent, Some (Inr res)) \<Rightarrow> (sent, Some res))"

section \<open>Requests that pass validation\<close>

text \<open>
  What the loop of the routes lets through: a message that is not \<^verbatim>\<open>null\<close> and has a
  truthy \<^verbatim>\<open>role\<close> and a truthy \<^verbatim>\<open>content\<close>. A conversation the routes accept is a
  non-empty array of such messages; a model list the compare route accepts is an array of
  one to five entries.
\<close>

definition well_formed :: "jsval \<Rightarrow> bool" where
  "well_formed msg = (\<not> nullish msg \<and> truthy (js_prop msg ''role'') \<and> truthy (js_prop msg ''content''))"

definition valid_conversation :: "jsval \<Rightarrow> bool" where
  "valid_conversation messages =
     (isArray messages \<and> elements messages \<noteq> [] \<and> list_all well_formed (elements messages))"

definition valid_models :: "jsval \<Rightarrow> bool" where
  "valid_models models =
     (isArray models \<and> 1 \<le> length (elements models) \<and> length (elements models) \<le> 5)"

text \<open>
  The values that convert to a string and to a number without an error: every value but
  an object with an own property \<^verbatim>\<open>toString\<close>, and an array with such an object in it.
\<close>

fun convertible :: "jsval \<Rightarrow> bool" where
  "convertible (Obj kvs) = (map_of kvs ''toString'' = None)"
| "convertible (Arr xs) = list_all convertible xs"
| "convertible v = True"

section \<open>Sample inputs\<close>

text \<open>
  Concrete inputs for the examples below: conversions that are never
  asked for a number, an environment with and without the key, a one-message conversation,
  a completion as the upstream sends it (naming the model that served it), the error of a
  call that ran into the 60 second timeout, and the error of a call the upstream answered
  with status 401.
\<close>

definition no_conversion :: js_builtins where
  "no_conversion = \<lparr>StringToNumber = (\<lambda>s. None), NumberToString = (\<lambda>r. ''0'')\<rparr>"

definition configured :: env where
  "configured = \<lparr>OPENROUTER_API_KEY = Some ''sk-or-key'', MODEL = None\<rparr>"

definition unconfigured :: env where
  "unconfigured = \<lparr>OPENROUTER_API_KEY = None, MODEL = None\<rparr>"

definition hello :: jsval where
  "hello = Arr [Obj [(''role'', Str ''user''), (''content'', Str ''hi'')]]"

definition completion :: jsval where
  "completion =
     Obj [(''model'', Str ''upstream/other''),
          (''choices'', Arr [Obj [(''message'', Obj [(''role'', Str ''assistant''),
                                                     (''content'', Str ''hello'')]),
                                  (''finish_reason'', Str ''stop'')]])]"

definition timed_out :: js_error where
  "timed_out = (Error ''timeout of 60000ms exceeded'')\<lparr>e_code := Str ''ECONNABORTED''\<rparr>"

definition unauthorized :: js_error where
  "unauthorized =
     (Error ''Request failed with status code 401'')
       \<lparr>e_code := Str ''ERR_BAD_REQUEST'',
        e_response := Some (Num 401, Obj [(''error'', Obj [(''message'', Str ''No auth'')])])\<rparr>"

section \<open>Auxiliary facts\<close>

subsection \<open>Values and the message loops\<close>

lemma isArray_truthy: "isArray v \<Longrightarrow> truthy v"
  by (cases v) simp_all

lemma js_prop_nullish: "nullish v \<Longrightarrow> js_prop v k = Undefined"
  by (cases v) simp_all

lemma e_message_Error: "e_message (Error msg) = msg"
  by (simp add: Error_def)

lemma bad_format_False: "bad_format ms = Inr False \<longleftrightarrow> list_all well_formed ms"
  by (induction ms) (auto simp: well_formed_def get_def split: sum.splits if_splits)




lemma valid_hello: "valid_conversation hello"
  by (simp add: valid_conversation_def hello_def well_formed_def)

subsection \<open>Conversions\<close>

text \<open>
  A conversion throws exactly on the values that are not \<open>convertible\<close>, and then with
  the one \<^verbatim>\<open>TypeError\<close>. The two parameter lines give a \<^verbatim>\<open>max_tokens\<close> above 0 and at
  most 4000, and a \<^verbatim>\<open>temperature\<close> between 0 and 2 or \<open>NaN\<close>.
\<close>

lemma collect_map_Inr:
  "(\<forall>x \<in> set xs. \<exists>a. f x = Inr a) \<Longrightarrow> \<exists>as. collect (map f xs) = Inr as"
  by (induction xs) auto

lemma collect_map_Inl:
  "\<exists>x \<in> set xs. f x = Inl e0 \<Longrightarrow> \<forall>x \<in> set xs. \<forall>e. f x = Inl e \<longrightarrow> e = e0 \<Longrightarrow>
   collect (map f xs) = Inl e0"
proof (induction xs)
  case Nil
  then show ?case by simp
next
  case (Cons x xs)
  show ?case
  proof (cases "f x")
    case (Inl e)
    with Cons.prems(2) show ?thesis by simp
  next
    case (Inr a)
    with Cons.prems have "collect (map f xs) = Inl e0"
      by (intro Cons.IH) auto
    with Inr show ?thesis by simp
  qed
qed

lemma ToString_convertible: "convertible v \<Longrightarrow> \<exists>s. ToString js v = Inr s"
proof (induction v)
  case (Arr xs)
  have "\<forall>x \<in> set xs. \<exists>a. (if nullish x then Inr [] else ToString js x) = Inr a"
    using Arr by (auto simp: list_all_iff)
  from collect_map_Inr[OF this] show ?case by auto
qed simp_all

lemma ToString_throws: "\<not> convertible v \<Longrightarrow> ToString js v = Inl primitive_error"
proof (induction v)
  case (Arr xs)
  let ?f = "\<lambda>x. if nullish x then Inr [] else ToString js x"
  from Arr.prems obtain x where x: "x \<in> set xs" "\<not> convertible x"
    by (auto simp: list_all_iff)
  have nn: "\<not> nullish x" using x(2) by (cases x) auto
  have 1: "\<exists>x \<in> set xs. ?f x = Inl primitive_error"
    using x nn Arr.IH[of x] by (auto intro!: bexI[of _ x])
  have 2: "\<forall>x \<in> set xs. \<forall>e. ?f x = Inl e \<longrightarrow> e = primitive_error"
  proof (intro ballI allI impI)
    fix y e assume y: "y \<in> set xs" and e: "?f y = Inl e"
    show "e = primitive_error"
    proof (cases "convertible y")
      case True
      from ToString_convertible[OF this, of js] e show ?thesis by (auto split: if_splits)
    next
      case False
      from Arr.IH[OF y False] e show ?thesis by (auto split: if_splits)
    qed
  qed
  from collect_map_Inl[of xs ?f, OF 1 2] show ?case by simp
qed simp_all

lemma Array_join_convertible:
  "list_all convertible xs \<Longrightarrow> \<exists>s. Array_join js sep xs = Inr s"
proof -
  assume "list_all convertible xs"
  then have "\<forall>x \<in> set xs. \<exists>a. (if nullish x then Inr [] else ToString js x) = Inr a"
    using ToString_convertible by (auto simp: list_all_iff)
  from collect_map_Inr[OF this] show ?thesis by (auto simp: Array_join_def)
qed

lemma Array_join_throws:
  assumes "\<not> list_all convertible xs"
  shows "Array_join js sep xs = Inl primitive_error"
proof -
  have "ToString js (Arr xs) = Inl primitive_error"
    using assms by (intro ToString_throws) simp
  then show ?thesis
    by (simp add: Array_join_def split: sum.splits)
qed

lemma ToNumber_convertible:
  "convertible v \<Longrightarrow> ToNumber js v = Inr NaN \<or> (\<exists>r. ToNumber js v = Inr (Num r))"
proof (cases v)
  case (Arr xs)
  assume "convertible v"
  from ToString_convertible[OF this, of js] Arr show ?thesis
    by (auto simp: of_string_def split: option.splits)
qed (auto simp: of_string_def split: option.splits)

lemma ToNumber_throws: "\<not> convertible v \<Longrightarrow> ToNumber js v = Inl primitive_error"
proof (cases v)
  case (Arr xs)
  assume "\<not> convertible v"
  from ToString_throws[OF this, of js] Arr show ?thesis by simp
qed auto

lemma ToNumber_result: "ToNumber js v = Inr n \<Longrightarrow> n = NaN \<or> (\<exists>r. n = Num r)"
  by (cases v) (auto simp: of_string_def split: option.splits sum.splits if_splits)

lemma not_convertible_truthy: "\<not> convertible v \<Longrightarrow> truthy v \<and> v \<noteq> Undefined"
  by (cases v) auto

lemma validatedMaxTokens_range:
  assumes "validatedMaxTokens js v = Inr a"
  shows "\<exists>r. a = Num r \<and> 0 < r \<and> r \<le> 4000"
  using assms
  by (auto simp: validatedMaxTokens_def gt_zero_def Math_min_def
      split: if_splits sum.splits bool.splits jsval.splits)

lemma validatedMaxTokens_convertible:
  assumes "convertible v"
  shows "\<exists>a. validatedMaxTokens js v = Inr a"
  using ToNumber_convertible[OF assms, of js]
  by (auto simp: validatedMaxTokens_def gt_zero_def Math_min_def split: bool.splits)

lemma validatedMaxTokens_throws:
  assumes "\<not> convertible v"
  shows "validatedMaxTokens js v = Inl primitive_error"
  using ToNumber_throws[OF assms, of js] not_convertible_truthy[OF assms]
  by (simp add: validatedMaxTokens_def gt_zero_def)

lemma validatedMaxTokens_number:
  "truthy v \<Longrightarrow> ToNumber js v = Inr (Num n) \<Longrightarrow>
   validatedMaxTokens js v = Inr (if 0 < n then Num (min n 4000) else Num 1000)"
  by (simp add: validatedMaxTokens_def gt_zero_def Math_min_def)

lemma validatedMaxTokens_default:
  "\<not> truthy v \<or> ToNumber js v = Inr NaN \<Longrightarrow> validatedMaxTokens js v = Inr (Num 1000)"
  by (auto simp: validatedMaxTokens_def gt_zero_def)

lemma validatedMaxTokens_simps:
  "validatedMaxTokens js Undefined = Inr (Num 1000)"
  "validatedMaxTokens js (Num n) = Inr (if 0 < n then Num (min n 4000) else Num 1000)"
  by (auto simp: validatedMaxTokens_def gt_zero_def Math_min_def)

lemma validatedTemperature_range:
  assumes "validatedTemperature js v = Inr a"
  shows "a = NaN \<or> (\<exists>r. a = Num r \<and> 0 \<le> r \<and> r \<le> 2)"
  using assms
  by (auto simp: validatedTemperature_def Math_min_def Math_max_def
      split: if_splits sum.splits jsval.splits)

lemma validatedTemperature_convertible:
  assumes "convertible v"
  shows "\<exists>a. validatedTemperature js v = Inr a"
  using ToNumber_convertible[OF assms, of js]
  by (auto simp: validatedTemperature_def Math_min_def Math_max_def)

lemma validatedTemperature_throws:
  assumes "\<not> convertible v"
  shows "validatedTemperature js v = Inl primitive_error"
  using ToNumber_throws[OF assms, of js] not_convertible_truthy[OF assms]
  by (simp add: validatedTemperature_def Math_min_def)

lemma validatedTemperature_number:
  "v \<noteq> Undefined \<Longrightarrow> ToNumber js v = Inr (Num x) \<Longrightarrow>
   validatedTemperature js v = Inr (Num (max 0 (min x 2)))"
  by (simp add: validatedTemperature_def Math_min_def Math_max_def)

lemma validatedTemperature_NaN:
  "v \<noteq> Undefined \<Longrightarrow> ToNumber js v = Inr NaN \<Longrightarrow> validatedTemperature js v = Inr NaN"
  by (simp add: validatedTemperature_def Math_min_def Math_max_def)

lemma validatedTemperature_simps:
  "validatedTemperature js Undefined = Inr (Num (7 / 10))"
  "validatedTemperature js (Num t) = Inr (Num (max 0 (min t 2)))"
  by (auto simp: validatedTemperature_def Math_max_def Math_min_def)

lemma validatedMaxTokens_defined: "validatedMaxTokens js v = Inr a \<Longrightarrow> a \<noteq> Undefined"
  using validatedMaxTokens_range by blast

lemma validatedTemperature_defined: "validatedTemperature js v = Inr a \<Longrightarrow> a \<noteq> Undefined"
  using validatedTemperature_range by blast

subsection \<open>Promise.all\<close>

text \<open>
  After the settlements listed in \<open>order\<close>, a slot holds its promise's value exactly when
  its position occurs in \<open>order\<close>. So the joint promise is fulfilled, with the values in
  the order of the promises, as soon as every position has occurred, in whatever order.
\<close>

lemma settle_length: "length (settle vs i slots) = length slots"
  by (simp add: settle_def)

lemma fold_settle:
  "length slots = length vs \<Longrightarrow>
   fold (settle vs) order slots =
     map (\<lambda>i. if i \<in> set order then Some (vs ! i) else slots ! i) [0..<length vs]"
proof (induction order arbitrary: slots)
  case Nil
  then show ?case using map_nth[of slots] by simp
next
  case (Cons a order)
  have len: "length (settle vs a slots) = length vs"
    using Cons.prems by (simp add: settle_length)
  show ?case
    unfolding fold_simps
    apply (simp only: Cons.IH[OF len])
    apply (rule map_cong[OF refl])
    using Cons.prems apply (auto simp: settle_def nth_list_update)
    done
qed

lemma Promise_all_joined:
  assumes "\<forall>i < length vs. i \<in> set order"
  shows "Promise_all vs order = Some vs"
proof -
  have "fold (settle vs) order (replicate (length vs) None) = map (\<lambda>i. Some (vs ! i)) [0..<length vs]"
    using assms by (subst fold_settle) (auto)
  also have "\<dots> = map Some vs"
    by (rule nth_equalityI) simp_all
  finally show ?thesis
    by (simp add: Promise_all_def list_all_iff comp_def)
qed

lemma Promise_all_pending:
  assumes "i < length vs" "i \<notin> set order"
  shows "Promise_all vs order = None"
proof -
  have eq: "fold (settle vs) order (replicate (length vs) None) =
      map (\<lambda>i. if i \<in> set order then Some (vs ! i) else None) [0..<length vs]"
    by (subst fold_settle) auto
  have "None \<in> set (fold (settle vs) order (replicate (length vs) None))"
    unfolding eq using assms by (auto simp: image_iff intro!: bexI[of _ i])
  then show ?thesis
    by (auto simp: Promise_all_def list_all_iff Let_def)
qed

lemma Promise_all_Some:
  assumes "Promise_all vs order = Some rs"
  shows "rs = vs"
proof -
  have "\<forall>i < length vs. i \<in> set order"
  proof (intro allI impI, rule ccontr)
    fix i assume "i < length vs" "i \<notin> set order"
    from Promise_all_pending[OF this] assms show False by simp
  qed
  from Promise_all_joined[OF this] assms show ?thesis by simp
qed

subsection \<open>callOpenRouter\<close>

lemma callOpenRouter_sent:
  assumes "rq \<in> set (fst (callOpenRouter js post messages model maxTokens temperature))"
  shows "rq = \<lparr>rq_model = model, rq_messages = messages,
               rq_max_tokens = (if maxTokens = Undefined then Num 1000 else maxTokens),
               rq_temperature = (if temperature = Undefined then Num (7 / 10) else temperature)\<rparr>"
  using assms
  by (auto simp: callOpenRouter_def Let_def split: if_splits option.splits axios_outcome.splits sum.splits)


lemma rethrow_plain: "rethrow js (Error msg) = Error msg"
  by (simp add: rethrow_def Error_def)

lemma callOpenRouter_fulfilled:
  assumes "isArray messages" "elements messages \<noteq> []"
    and "validate_messages (elements messages) = None"
  shows "snd (callOpenRouter js (\<lambda>rq. Fulfilled data) messages model mt t) =
           (case extract_reply data of Inl er \<Rightarrow> Inl (rethrow js er) | Inr result \<Rightarrow> Inr result)"
  using assms by (simp add: callOpenRouter_def Let_def split: sum.split)

text \<open>
  Where the test of line 108 decides rightly: a payload (not \<^verbatim>\<open>null\<close>) whose \<^verbatim>\<open>choices\<close> or
  \<^verbatim>\<open>choices[0]\<close> is falsy gives the unexpected-format error, and a payload whose
  \<^verbatim>\<open>choices[0]\<close> has a \<^verbatim>\<open>message\<close> gives the reply.
\<close>

lemma callOpenRouter_reply:
  assumes "isArray messages" "elements messages \<noteq> []"
    and "validate_messages (elements messages) = None"
  shows
    "(\<not> nullish data
        \<and> \<not> (truthy (js_prop data ''choices'') \<and> truthy (index0 (js_prop data ''choices'')))
      \<longrightarrow> snd (callOpenRouter js (\<lambda>rq. Fulfilled data) messages model mt t) =
            Inl (Error ''Unexpected response format from OpenRouter''))
   \<and> (truthy (js_prop data ''choices'') \<and> truthy (index0 (js_prop data ''choices''))
        \<and> \<not> nullish (js_prop (index0 (js_prop data ''choices'')) ''message'')
      \<longrightarrow> snd (callOpenRouter js (\<lambda>rq. Fulfilled data) messages model mt t) =
            Inr \<lparr>rp_message =
                   js_prop (js_prop (index0 (js_prop data ''choices'')) ''message'') ''content'',
                 rp_usage = js_or (js_prop data ''usage'') (Obj []),
                 rp_finish_reason = js_prop (index0 (js_prop data ''choices'')) ''finish_reason''\<rparr>)"
proof (intro conjI impI)
  note call = callOpenRouter_fulfilled[OF assms]
  assume "\<not> nullish data
        \<and> \<not> (truthy (js_prop data ''choices'') \<and> truthy (index0 (js_prop data ''choices'')))"
  then have "extract_reply data = Inl (Error ''Unexpected response format from OpenRouter'')"
    by (auto simp: extract_reply_def get_def)
  then show "snd (callOpenRouter js (\<lambda>rq. Fulfilled data) messages model mt t) =
            Inl (Error ''Unexpected response format from OpenRouter'')"
    unfolding call by (simp add: rethrow_plain)
next
  note call = callOpenRouter_fulfilled[OF assms]
  assume a: "truthy (js_prop data ''choices'') \<and> truthy (index0 (js_prop data ''choices''))
        \<and> \<not> nullish (js_prop (index0 (js_prop data ''choices'')) ''message'')"
  then have "\<not> nullish data"
    using js_prop_nullish[of data] by auto
  with a have "extract_reply data =
            Inr \<lparr>rp_message =
                   js_prop (js_prop (index0 (js_prop data ''choices'')) ''message'') ''content'',
                 rp_usage = js_or (js_prop data ''usage'') (Obj []),
                 rp_finish_reason = js_prop (index0 (js_prop data ''choices'')) ''finish_reason''\<rparr>"
    by (simp add: extract_reply_def get_def)
  then show "snd (callOpenRouter js (\<lambda>rq. Fulfilled data) messages model mt t) =
            Inr \<lparr>rp_message =
                   js_prop (js_prop (index0 (js_prop data ''choices'')) ''message'') ''content'',
                 rp_usage = js_or (js_prop data ''usage'') (Obj []),
                 rp_finish_reason = js_prop (index0 (js_prop data ''choices'')) ''finish_reason''\<rparr>"
    unfolding call by simp
qed

subsection \<open>The chat route\<close>

lemma fst_chat: "fst (chat js e post body) = fst (chat_try js e post body)"
  by (simp add: chat_def split: prod.split sum.split)

lemma chat_try_sent:
  "fst (chat_try js e post body) = []
   \<or> (\<exists>a b. validatedMaxTokens js (js_prop body ''max_tokens'') = Inr a
          \<and> validatedTemperature js (js_prop body ''temperature'') = Inr b
          \<and> fst (chat_try js e post body) =
              fst (callOpenRouter js post (js_prop body ''messages'')
                     (js_or (js_prop body ''model'') (Str (DEFAULT_MODEL e))) a b))"
  by (simp add: chat_try_def get_def Let_def split: sum.split bool.split prod.split)

lemma chat_sent:
  assumes "rq \<in> set (fst (chat js e post body))"
  shows "\<exists>a b. validatedMaxTokens js (js_prop body ''max_tokens'') = Inr a
           \<and> validatedTemperature js (js_prop body ''temperature'') = Inr b
           \<and> rq = \<lparr>rq_model = js_or (js_prop body ''model'') (Str (DEFAULT_MODEL e)),
                    rq_messages = js_prop body ''messages'',
                    rq_max_tokens = a, rq_temperature = b\<rparr>"
proof -
  from assms chat_try_sent[of js e post body] obtain a b where
    a: "validatedMaxTokens js (js_prop body ''max_tokens'') = Inr a"
    and b: "validatedTemperature js (js_prop body ''temperature'') = Inr b"
    and rq: "rq \<in> set (fst (callOpenRouter js post (js_prop body ''messages'')
                     (js_or (js_prop body ''model'') (Str (DEFAULT_MODEL e))) a b))"
    unfolding fst_chat by auto
  from callOpenRouter_sent[OF rq] a b show ?thesis
    by (simp add: validatedMaxTokens_defined[OF a] validatedTemperature_defined[OF b])
qed


lemma chat_try_success:
  assumes "chat_try js e post body = (sent, Inr \<lparr>res_status = st, res_json = ChatJson ok msg mdl usage fin\<rparr>)"
  shows "mdl = js_or (js_prop body ''model'') (Str (DEFAULT_MODEL e))"
  using assms
  by (simp add: chat_try_def get_def Let_def reject_def
      split: if_splits sum.splits bool.splits prod.splits)

lemma chat_accepted:
  assumes "valid_conversation (js_prop body ''messages'')" and "\<not> api_key_missing e"
    and "validatedMaxTokens js (js_prop body ''max_tokens'') = Inr a"
    and "validatedTemperature js (js_prop body ''temperature'') = Inr b"
    and "ToString js (js_or (js_prop body ''model'') (Str (DEFAULT_MODEL e))) = Inr s"
  shows "snd (chat js e post body) =
           (case snd (callOpenRouter js post (js_prop body ''messages'')
                   (js_or (js_prop body ''model'') (Str (DEFAULT_MODEL e))) a b) of
              Inl er \<Rightarrow> chat_catch er
            | Inr result \<Rightarrow>
                \<lparr>res_status = Num 200,
                 res_json = ChatJson True (rp_message result)
                   (js_or (js_prop body ''model'') (Str (DEFAULT_MODEL e)))
                   (rp_usage result) (rp_finish_reason result)\<rparr>)"
proof -
  have nb: "\<not> nullish body"
    using assms(1) js_prop_nullish[of body] by (auto simp: valid_conversation_def)
  have bf: "bad_format (elements (js_prop body ''messages'')) = Inr False"
    using assms(1) by (simp add: valid_conversation_def bad_format_False)
  have ms: "truthy (js_prop body ''messages'')" "isArray (js_prop body ''messages'')"
    "elements (js_prop body ''messages'') \<noteq> []"
    using assms(1) by (auto simp: valid_conversation_def isArray_truthy)
  show ?thesis
    using nb bf ms assms(2)
    by (simp add: chat_def chat_try_def get_def Let_def assms(3-5) split: prod.split sum.split)
qed

lemma chat_caller_failure:
  assumes "valid_conversation (js_prop body ''messages'')" and "\<not> api_key_missing e"
    and "validatedMaxTokens js (js_prop body ''max_tokens'') = Inr a"
    and "validatedTemperature js (js_prop body ''temperature'') = Inr b"
    and "ToString js (js_or (js_prop body ''model'') (Str (DEFAULT_MODEL e))) = Inr s"
    and "snd (callOpenRouter js post (js_prop body ''messages'')
                (js_or (js_prop body ''model'') (Str (DEFAULT_MODEL e))) a b) = Inl er"
  shows "snd (chat js e post body) = chat_catch er"
  using assms(6) by (simp add: chat_accepted[OF assms(1-5)])

lemma chat_conversion_failure:
  assumes "valid_conversation (js_prop body ''messages'')" and "\<not> api_key_missing e"
    and "\<not> (convertible (js_prop body ''max_tokens'') \<and> convertible (js_prop body ''temperature'')
            \<and> convertible (js_prop body ''model''))"
  shows "chat js e post body =
           ([], \<lparr>res_status = Num 500,
                 res_json = ErrorJson ''Internal server error''
                              (Str ''Cannot convert object to primitive value'')\<rparr>)"
proof -
  have nb: "\<not> nullish body"
    using assms(1) js_prop_nullish[of body] by (auto simp: valid_conversation_def)
  have bf: "bad_format (elements (js_prop body ''messages'')) = Inr False"
    using assms(1) by (simp add: valid_conversation_def bad_format_False)
  have ms: "truthy (js_prop body ''messages'')" "isArray (js_prop body ''messages'')"
    "elements (js_prop body ''messages'') \<noteq> []"
    using assms(1) by (auto simp: valid_conversation_def isArray_truthy)
  have pe: "chat_catch primitive_error =
      \<lparr>res_status = Num 500,
       res_json = ErrorJson ''Internal server error''
                    (Str ''Cannot convert object to primitive value'')\<rparr>"
    by (simp add: chat_catch_def primitive_error_def Error_def)
  let ?sel = "js_or (js_prop body ''model'') (Str (DEFAULT_MODEL e))"
  have "chat_try js e post body = ([], Inl primitive_error)"
  proof (cases "convertible (js_prop body ''max_tokens'')")
    case False
    from validatedMaxTokens_throws[OF this, of js] show ?thesis
      using nb bf ms assms(2) by (simp add: chat_try_def get_def Let_def)
  next
    case mt: True
    then obtain a where a: "validatedMaxTokens js (js_prop body ''max_tokens'') = Inr a"
      using validatedMaxTokens_convertible by blast
    show ?thesis
    proof (cases "convertible (js_prop body ''temperature'')")
      case False
      from validatedTemperature_throws[OF this, of js] a show ?thesis
        using nb bf ms assms(2) by (simp add: chat_try_def get_def Let_def)
    next
      case True
      then obtain b where b: "validatedTemperature js (js_prop body ''temperature'') = Inr b"
        using validatedTemperature_convertible by blast
      from True mt assms(3) have m: "\<not> convertible (js_prop body ''model'')" by simp
      then have "?sel = js_prop body ''model''"
        using not_convertible_truthy[OF m] by (simp add: js_or_def)
      with ToString_throws[OF m, of js] have "ToString js ?sel = Inl primitive_error"
        by simp
      with a b show ?thesis
        using nb bf ms assms(2) by (simp add: chat_try_def get_def Let_def)
    qed
  qed
  then show ?thesis by (simp add: chat_def pe)
qed

lemma chat_catch_error: "\<exists>st err msg. chat_catch er = \<lparr>res_status = st, res_json = ErrorJson err msg\<rparr>"
  by (simp add: chat_catch_def reject_def Let_def)

subsection \<open>The compare route\<close>

lemma leg_sent:
  assumes "rq \<in> set (fst (leg js post messages maxTokens temperature model))"
  shows "rq \<in> set (fst (callOpenRouter js post messages model maxTokens temperature))"
  using assms by (auto simp: leg_def split: prod.splits sum.splits)

lemma leg_model: "r_model (snd (leg js post messages mt t model)) = model"
  by (simp add: leg_def leg_then_def leg_catch_def split: prod.split sum.split)

lemma leg_outcome:
  "snd (leg js post messages mt t model) =
     (case snd (callOpenRouter js post messages model mt t) of
        Inr result \<Rightarrow> leg_then model result
      | Inl error \<Rightarrow> leg_catch model error)"
  by (simp add: leg_def split: prod.split sum.split)

lemma leg_caller_failure:
  assumes "snd (callOpenRouter js post messages model mt t) = Inl er"
  shows "snd (leg js post messages mt t model) = leg_catch model er"
  using assms by (simp add: leg_outcome)

lemma promises_length: "length (promises js posts messages mt t models) = length models"
  by (simp add: promises_def)

lemma promises_nth:
  "i < length models \<Longrightarrow>
   promises js posts messages mt t models ! i = leg js (posts i) messages mt t (models ! i)"
  by (simp add: promises_def nth_enumerate_eq)

lemma fst_compare: "fst (compare js e posts order body) = fst (compare_try js e posts order body)"
  by (simp add: compare_def split: prod.split option.split sum.split)

lemma compare_try_sent:
  "fst (compare_try js e posts order body) = []
   \<or> (\<exists>a b. validatedMaxTokens js (js_prop body ''max_tokens'') = Inr a
          \<and> validatedTemperature js (js_prop body ''temperature'') = Inr b
          \<and> fst (compare_try js e posts order body) =
              concat (map fst (promises js posts (js_prop body ''messages'') a b
                                 (elements (js_prop body ''models'')))))"
  by (simp add: compare_try_def get_def Let_def split: sum.split bool.split)

lemma compare_sent:
  assumes "rq \<in> set (fst (compare js e posts order body))"
  shows "\<exists>i a b. i < length (elements (js_prop body ''models''))
           \<and> validatedMaxTokens js (js_prop body ''max_tokens'') = Inr a
           \<and> validatedTemperature js (js_prop body ''temperature'') = Inr b
           \<and> rq = \<lparr>rq_model = elements (js_prop body ''models'') ! i,
                    rq_messages = js_prop body ''messages'',
                    rq_max_tokens = a, rq_temperature = b\<rparr>"
proof -
  let ?ms = "elements (js_prop body ''models'')"
  from assms compare_try_sent[of js e posts order body] obtain a b where
    a: "validatedMaxTokens js (js_prop body ''max_tokens'') = Inr a"
    and b: "validatedTemperature js (js_prop body ''temperature'') = Inr b"
    and rq: "rq \<in> set (concat (map fst (promises js posts (js_prop body ''messages'') a b ?ms)))"
    unfolding fst_compare by auto
  let ?ps = "promises js posts (js_prop body ''messages'') a b ?ms"
  from rq obtain p where "p \<in> set ?ps" and rqp: "rq \<in> set (fst p)"
    by auto
  then obtain i where i: "i < length ?ms" and p: "p = ?ps ! i"
    by (auto simp: in_set_conv_nth promises_length)
  from rqp have "rq \<in> set (fst (callOpenRouter js (posts i) (js_prop body ''messages'') (?ms ! i) a b))"
    unfolding p promises_nth[OF i] by (rule leg_sent)
  from callOpenRouter_sent[OF this] have
    "rq = \<lparr>rq_model = ?ms ! i, rq_messages = js_prop body ''messages'',
           rq_max_tokens = a, rq_temperature = b\<rparr>"
    by (simp add: validatedMaxTokens_defined[OF a] validatedTemperature_defined[OF b])
  with i a b show ?thesis by blast
qed


lemma compare_try_validated:
  assumes "valid_conversation (js_prop body ''messages'')"
    and "valid_models (js_prop body ''models'')"
    and "\<not> api_key_missing e"
    and "validatedMaxTokens js (js_prop body ''max_tokens'') = Inr a"
    and "validatedTemperature js (js_prop body ''temperature'') = Inr b"
    and "convertible (js_prop body ''models'')"
  shows "compare_try js e posts order body =
           (let legs = promises js posts (js_prop body ''messages'') a b
                         (elements (js_prop body ''models''))
            in (concat (map fst legs),
                (case Promise_all (map snd legs) order of
                   None \<Rightarrow> None
                 | Some results \<Rightarrow>
                     Some (Inr \<lparr>res_status = Num 200, res_json = CompareJson True results\<rparr>))))"
proof -
  have nb: "\<not> nullish body"
    using assms(1) js_prop_nullish[of body] by (auto simp: valid_conversation_def)
  have bf: "bad_format (elements (js_prop body ''messages'')) = Inr False"
    using assms(1) by (simp add: valid_conversation_def bad_format_False)
  have ms: "truthy (js_prop body ''messages'')" "isArray (js_prop body ''messages'')"
    "elements (js_prop body ''messages'') \<noteq> []"
    using assms(1) by (auto simp: valid_conversation_def isArray_truthy)
  have mo: "truthy (js_prop body ''models'')" "isArray (js_prop body ''models'')"
    "elements (js_prop body ''models'') \<noteq> []" "\<not> 5 < length (elements (js_prop body ''models''))"
    using assms(2) by (auto simp: valid_models_def isArray_truthy)
  have "list_all convertible (elements (js_prop body ''models''))"
    using assms(6) mo(2) by (cases "js_prop body ''models''") simp_all
  then obtain s where s: "Array_join js '', '' (elements (js_prop body ''models'')) = Inr s"
    using Array_join_convertible by blast
  show ?thesis
    using nb bf ms mo assms(3)
    by (simp add: compare_try_def get_def Let_def assms(4,5) s)
qed

lemma compare_validated:
  assumes "valid_conversation (js_prop body ''messages'')"
    and "valid_models (js_prop body ''models'')"
    and "\<not> api_key_missing e"
    and "validatedMaxTokens js (js_prop body ''max_tokens'') = Inr a"
    and "validatedTemperature js (js_prop body ''temperature'') = Inr b"
    and "convertible (js_prop body ''models'')"
    and "\<forall>i < length (elements (js_prop body ''models'')). i \<in> set order"
  shows "snd (compare js e posts order body) =
           Some \<lparr>res_status = Num 200,
                 res_json = CompareJson True
                   (map snd (promises js posts (js_prop body ''messages'') a b
                      (elements (js_prop body ''models''))))\<rparr>"
proof -
  let ?ps = "promises js posts (js_prop body ''messages'') a b
               (elements (js_prop body ''models''))"
  have "Promise_all (map snd ?ps) order = Some (map snd ?ps)"
    using assms(7) by (intro Promise_all_joined) (simp add: promises_length)
  then show ?thesis
    by (simp add: compare_def compare_try_validated[OF assms(1-6)] Let_def)
qed

lemma compare_conversion_failure:
  assumes "valid_conversation (js_prop body ''messages'')"
    and "valid_models (js_prop body ''models'')"
    and "\<not> api_key_missing e"
    and "\<not> (convertible (js_prop body ''max_tokens'') \<and> convertible (js_prop body ''temperature'')
            \<and> convertible (js_prop body ''models''))"
  shows "compare js e posts order body =
           ([], Some \<lparr>res_status = Num 500,
                      res_json = ErrorJson ''Internal server error''
                                   (Str ''Cannot convert object to primitive value'')\<rparr>)"
proof -
  have nb: "\<not> nullish body"
    using assms(1) js_prop_nullish[of body] by (auto simp: valid_conversation_def)
  have bf: "bad_format (elements (js_prop body ''messages'')) = Inr False"
    using assms(1) by (simp add: valid_conversation_def bad_format_False)
  have ms: "truthy (js_prop body ''messages'')" "isArray (js_prop body ''messages'')"
    "elements (js_prop body ''messages'') \<noteq> []"
    using assms(1) by (auto simp: valid_conversation_def isArray_truthy)
  have mo: "truthy (js_prop body ''models'')" "isArray (js_prop body ''models'')"
    "elements (js_prop body ''models'') \<noteq> []" "\<not> 5 < length (elements (js_prop body ''models''))"
    using assms(2) by (auto simp: valid_models_def isArray_truthy)
  have "compare_try js e posts order body = ([], Some (Inl primitive_error))"
  proof (cases "convertible (js_prop body ''max_tokens'')")
    case False
    from validatedMaxTokens_throws[OF this, of js] show ?thesis
      using nb bf ms mo assms(3) by (simp add: compare_try_def get_def Let_def)
  next
    case mt: True
    then obtain a where a: "validatedMaxTokens js (js_prop body ''max_tokens'') = Inr a"
      using validatedMaxTokens_convertible by blast
    show ?thesis
    proof (cases "convertible (js_prop body ''temperature'')")
      case False
      from validatedTemperature_throws[OF this, of js] a show ?thesis
        using nb bf ms mo assms(3) by (simp add: compare_try_def get_def Let_def)
    next
      case True
      then obtain b where b: "validatedTemperature js (js_prop body ''temperature'') = Inr b"
        using validatedTemperature_convertible by blast
      from True mt assms(4) have m: "\<not> convertible (js_prop body ''models'')" by simp
      then have "\<not> list_all convertible (elements (js_prop body ''models''))"
        using mo(2) by (cases "js_prop body ''models''") simp_all
      from Array_join_throws[OF this, of js "'', ''"] a b show ?thesis
        using nb bf ms mo assms(3) by (simp add: compare_try_def get_def Let_def)
    qed
  qed
  then show ?thesis
    by (simp add: compare_def primitive_error_def Error_def)
qed

lemma compare_try_failure_sent:
  assumes "compare_try js e posts order body = (sent, Some (Inl er))
         \<or> compare_try js e posts order body = (sent, Some (Inr \<lparr>res_status = st, res_json = ErrorJson err msg\<rparr>))"
  shows "sent = []"
  using assms
  by (simp add: compare_try_def get_def Let_def reject_def split: sum.splits bool.splits if_splits option.splits)

lemma compare_try_response:
  assumes "compare_try js e posts order body = (sent, Some (Inr res))"
  shows "sent = [] \<or> (\<exists>results. res = \<lparr>res_status = Num 200, res_json = CompareJson True results\<rparr>)"
  using assms
  by (auto simp: compare_try_def get_def Let_def reject_def
      split: sum.splits bool.splits if_splits option.splits)

lemma compare_failure_sent:
  assumes "snd (compare js e posts order body) = Some r" and "top_success r \<noteq> Bool True"
  shows "fst (compare js e posts order body) = []"
proof (cases "compare_try js e posts order body")
  case (Pair sent out)
  show ?thesis
  proof (cases out)
    case None
    with Pair assms(1) show ?thesis by (simp add: compare_def)
  next
    case (Some x)
    show ?thesis
    proof (cases x)
      case (Inl er)
      with Pair Some compare_try_failure_sent[of js e posts order body sent er] show ?thesis
        by (simp add: fst_compare)
    next
      case (Inr res)
      with Pair Some assms(1) have r: "res = r" by (simp add: compare_def)
      have "sent = []"
        using compare_try_response[of js e posts order body sent res] Pair Some Inr r assms(2)
        by auto
      with Pair show ?thesis by (simp add: fst_compare)
    qed
  qed
qed

lemma compare_try_results:
  assumes "compare_try js e posts order body =
             (sent, Some (Inr \<lparr>res_status = st, res_json = CompareJson ok results\<rparr>))"
  shows "\<exists>a b. results = map snd (promises js posts (js_prop body ''messages'') a b
                     (elements (js_prop body ''models'')))"
  using assms
  by (auto simp: compare_try_def Let_def reject_def dest: Promise_all_Some
      split: sum.splits bool.splits if_splits option.splits)

lemma compare_results:
  assumes "snd (compare js e posts order body) =
             Some \<lparr>res_status = st, res_json = CompareJson ok results\<rparr>"
  shows "\<exists>a b. results = map snd (promises js posts (js_prop body ''messages'') a b
                     (elements (js_prop body ''models'')))"
proof (cases "compare_try js e posts order body")
  case (Pair sent out)
  show ?thesis
  proof (cases out)
    case None
    with Pair assms show ?thesis by (simp add: compare_def)
  next
    case (Some x)
    show ?thesis
    proof (cases x)
      case (Inl er)
      with Pair Some assms show ?thesis by (simp add: compare_def)
    next
      case (Inr res)
      with Pair Some assms have "res = \<lparr>res_status = st, res_json = CompareJson ok results\<rparr>"
        by (simp add: compare_def)
      with Pair Some Inr show ?thesis
        using compare_try_results[of js e posts order body sent st ok results] by simp
    qed
  qed
qed

text \<open>The join: while some leg has not settled, the route sends nothing.\<close>

lemma compare_waits_for_all:
  assumes "valid_conversation (js_prop body ''messages'')"
    and "valid_models (js_prop body ''models'')"
    and "\<not> api_key_missing e"
    and "convertible (js_prop body ''max_tokens'')"
    and "convertible (js_prop body ''temperature'')"
    and "convertible (js_prop body ''models'')"
    and "i < length (elements (js_prop body ''models''))" and "i \<notin> set order"
  shows "snd (compare js e posts order body) = None"
proof -
  from assms(4) obtain a where a: "validatedMaxTokens js (js_prop body ''max_tokens'') = Inr a"
    using validatedMaxTokens_convertible by blast
  from assms(5) obtain b where b: "validatedTemperature js (js_prop body ''temperature'') = Inr b"
    using validatedTemperature_convertible by blast
  let ?ps = "promises js posts (js_prop body ''messages'') a b
               (elements (js_prop body ''models''))"
  have "Promise_all (map snd ?ps) order = None"
    using assms(7,8) by (intro Promise_all_pending[of i]) (simp_all add: promises_length)
  then show ?thesis
    by (simp add: compare_def compare_try_validated[OF assms(1-3) a b assms(6)] Let_def)
qed

subsection \<open>Requests without messages or models\<close>

text \<open>
  With a parsed body, both routes test \<^verbatim>\<open>messages\<close> first and the compare route tests
  \<^verbatim>\<open>models\<close> next; each failed test is answered with status 400 and nothing is posted.
\<close>

lemma messages_required:
  assumes "\<not> nullish body"
    and "js_prop body ''messages'' = Undefined \<or> \<not> isArray (js_prop body ''messages'')
         \<or> js_prop body ''messages'' = Arr []"
  shows "chat js e post body =
           ([], reject 400 ''Invalid request'' ''Messages array is required and must not be empty'')
       \<and> compare js e posts order body =
           ([], Some (reject 400 ''Invalid request''
                        ''Messages array is required and must not be empty''))"
proof -
  have "\<not> isArray (js_prop body ''messages'') \<or> length (elements (js_prop body ''messages'')) = 0"
    using assms(2) by auto
  then show ?thesis
    using assms(1)
    by (auto simp: chat_def chat_try_def compare_def compare_try_def get_def Let_def)
qed

lemma models_required:
  assumes "\<not> nullish body"
    and "js_prop body ''models'' = Undefined \<or> \<not> isArray (js_prop body ''models'')
         \<or> js_prop body ''models'' = Arr [] \<or> 5 < length (elements (js_prop body ''models''))"
  shows "compare js e posts order body =
           ([], Some
              (if \<not> isArray (js_prop body ''messages'') \<or> js_prop body ''messages'' = Arr []
               then reject 400 ''Invalid request''
                      ''Messages array is required and must not be empty''
               else if 5 < length (elements (js_prop body ''models''))
               then reject 400 ''Too many models'' ''Maximum 5 models allowed in compare mode''
               else reject 400 ''Invalid request'' ''Models array is required for compare mode''))"
proof -
  have m: "\<not> isArray (js_prop body ''messages'') \<or> js_prop body ''messages'' = Arr []
        \<longleftrightarrow> \<not> truthy (js_prop body ''messages'') \<or> \<not> isArray (js_prop body ''messages'')
           \<or> length (elements (js_prop body ''messages'')) = 0"
    by (cases "js_prop body ''messages''") auto
  have k: "5 < length (elements (js_prop body ''models'')) \<Longrightarrow> isArray (js_prop body ''models'')"
    by (cases "js_prop body ''models''") auto
  have "\<not> isArray (js_prop body ''models'') \<or> length (elements (js_prop body ''models'')) = 0
        \<or> 5 < length (elements (js_prop body ''models''))"
    using assms(2) by auto
  then show ?thesis
    using assms(1) k unfolding m
    by (auto simp: compare_def compare_try_def get_def Let_def isArray_truthy)
qed

section \<open>The properties of the specification\<close>

subsection \<open>C1: the compare results follow the model list\<close>

text \<open>
  C1. Whenever the compare route answers with a \<^verbatim>\<open>results\<close> list, the list has the length
  of the request's \<^verbatim>\<open>models\<close> list and the entry at each index names the model at that
  index. And a request that passes validation, whose \<^verbatim>\<open>models\<close> list has between one and
  five entries, is answered with such a list for every order in which the upstream calls
  settle, provided each of them settles and the route reaches the fan-out: the key is
  configured and \<^verbatim>\<open>max_tokens\<close>, \<^verbatim>\<open>temperature\<close> and the models convert to numbers and
  strings. When one of them is an object with an own \<^verbatim>\<open>toString\<close>, lines 287 to 290
  throw before the fan-out, and the answer is an error without a \<^verbatim>\<open>results\<close> list.
\<close>

theorem compare_results_in_order:
  "(\<forall>st ok results.
      snd (compare js e posts order body) =
        Some \<lparr>res_status = st, res_json = CompareJson ok results\<rparr>
      \<longrightarrow> length results = length (elements (js_prop body ''models''))
        \<and> (\<forall>i < length (elements (js_prop body ''models'')).
              r_model (results ! i) = elements (js_prop body ''models'') ! i))
   \<and> (valid_conversation (js_prop body ''messages'') \<and> valid_models (js_prop body ''models'')
        \<and> \<not> api_key_missing e
        \<and> convertible (js_prop body ''max_tokens'') \<and> convertible (js_prop body ''temperature'')
        \<and> convertible (js_prop body ''models'')
        \<and> (\<forall>i < length (elements (js_prop body ''models'')). i \<in> set order)
      \<longrightarrow> (\<exists>results.
             snd (compare js e posts order body) =
               Some \<lparr>res_status = Num 200, res_json = CompareJson True results\<rparr>))
   \<and> (valid_conversation (js_prop body ''messages'') \<and> valid_models (js_prop body ''models'')
        \<and> \<not> api_key_missing e
        \<and> \<not> (convertible (js_prop body ''max_tokens'')
              \<and> convertible (js_prop body ''temperature'')
              \<and> convertible (js_prop body ''models''))
      \<longrightarrow> snd (compare js e posts order body) =
            Some \<lparr>res_status = Num 500,
                  res_json = ErrorJson ''Internal server error''
                               (Str ''Cannot convert object to primitive value'')\<rparr>)"
proof (intro conjI allI impI)
  fix st ok results
  assume "snd (compare js e posts order body) =
        Some \<lparr>res_status = st, res_json = CompareJson ok results\<rparr>"
  from compare_results[OF this] obtain a b where
    "results = map snd (promises js posts (js_prop body ''messages'') a b
                          (elements (js_prop body ''models'')))"
    by blast
  then show "length results = length (elements (js_prop body ''models''))"
    and "\<And>i. i < length (elements (js_prop body ''models'')) \<Longrightarrow>
           r_model (results ! i) = elements (js_prop body ''models'') ! i"
    by (simp_all add: promises_length promises_nth leg_model)
next
  assume h: "valid_conversation (js_prop body ''messages'') \<and> valid_models (js_prop body ''models'')
        \<and> \<not> api_key_missing e
        \<and> convertible (js_prop body ''max_tokens'') \<and> convertible (js_prop body ''temperature'')
        \<and> convertible (js_prop body ''models'')
        \<and> (\<forall>i < length (elements (js_prop body ''models'')). i \<in> set order)"
  then obtain a b where
    "validatedMaxTokens js (js_prop body ''max_tokens'') = Inr a"
    "validatedTemperature js (js_prop body ''temperature'') = Inr b"
    using validatedMaxTokens_convertible validatedTemperature_convertible by blast
  with h show "\<exists>results.
             snd (compare js e posts order body) =
               Some \<lparr>res_status = Num 200, res_json = CompareJson True results\<rparr>"
    using compare_validated[of body e js a b order posts] by blast
next
  assume "valid_conversation (js_prop body ''messages'') \<and> valid_models (js_prop body ''models'')
        \<and> \<not> api_key_missing e
        \<and> \<not> (convertible (js_prop body ''max_tokens'')
              \<and> convertible (js_prop body ''temperature'')
              \<and> convertible (js_prop body ''models''))"
  then have "compare js e posts order body =
           ([], Some \<lparr>res_status = Num 500,
                      res_json = ErrorJson ''Internal server error''
                                   (Str ''Cannot convert object to primitive value'')\<rparr>)"
    by (intro compare_conversion_failure) simp_all
  then show "snd (compare js e posts order body) =
            Some \<lparr>res_status = Num 500,
                  res_json = ErrorJson ''Internal server error''
                               (Str ''Cannot convert object to primitive value'')\<rparr>"
    by simp
qed

text \<open>
  Two models, the second call settling first (by a timeout). And a \<^verbatim>\<open>max_tokens\<close> that is
  an object with an own \<^verbatim>\<open>toString\<close>.
\<close>

theorem compare_results_in_order_witness:
  "(\<exists>results.
     snd (compare no_conversion configured
            (\<lambda>i rq. if i = 0 then Fulfilled completion else Rejected timed_out) [1, 0]
            (Obj [(''messages'', hello), (''models'', Arr [Str ''a'', Str ''b''])])) =
       Some \<lparr>res_status = Num 200, res_json = CompareJson True results\<rparr>
     \<and> length results = 2
     \<and> r_model (results ! 0) = Str ''a'' \<and> r_model (results ! 1) = Str ''b'')
   \<and> snd (compare no_conversion configured (\<lambda>i rq. Fulfilled completion) [0]
            (Obj [(''messages'', hello), (''models'', Arr [Str ''a'']),
                  (''max_tokens'', Obj [(''toString'', Str ''x'')])])) =
     Some \<lparr>res_status = Num 500,
           res_json = ErrorJson ''Internal server error''
                        (Str ''Cannot convert object to primitive value'')\<rparr>"
proof -
  let ?c = "Obj [(''messages'', hello), (''models'', Arr [Str ''a'']),
                 (''max_tokens'', Obj [(''toString'', Str ''x'')])]"
  have g: "valid_conversation (js_prop ?c ''messages'') \<and> valid_models (js_prop ?c ''models'')
      \<and> \<not> api_key_missing configured
      \<and> \<not> (convertible (js_prop ?c ''max_tokens'') \<and> convertible (js_prop ?c ''temperature'')
            \<and> convertible (js_prop ?c ''models''))"
    by (auto simp: valid_hello valid_models_def api_key_missing_def configured_def)
  have p2: "snd (compare no_conversion configured (\<lambda>i rq. Fulfilled completion) [0] ?c) =
     Some \<lparr>res_status = Num 500,
           res_json = ErrorJson ''Internal server error''
                        (Str ''Cannot convert object to primitive value'')\<rparr>"
    using compare_results_in_order[of no_conversion configured "\<lambda>i rq. Fulfilled completion"
        "[0]" ?c] g
    by blast
  let ?b = "Obj [(''messages'', hello), (''models'', Arr [Str ''a'', Str ''b''])]"
  let ?posts = "\<lambda>i rq. if i = (0::nat) then Fulfilled completion else Rejected timed_out"
  note inst = compare_results_in_order[of no_conversion configured ?posts "[1, 0]" ?b]
  have h: "valid_conversation (js_prop ?b ''messages'') \<and> valid_models (js_prop ?b ''models'')
      \<and> \<not> api_key_missing configured
      \<and> convertible (js_prop ?b ''max_tokens'') \<and> convertible (js_prop ?b ''temperature'')
      \<and> convertible (js_prop ?b ''models'')
      \<and> (\<forall>i < length (elements (js_prop ?b ''models'')). i \<in> set [1, 0])"
    by (auto simp: valid_hello valid_models_def api_key_missing_def configured_def
        less_Suc_eq numeral_2_eq_2)
  with inst obtain results where
    r: "snd (compare no_conversion configured ?posts [1, 0] ?b) =
       Some \<lparr>res_status = Num 200, res_json = CompareJson True results\<rparr>"
    by blast
  with inst have "length results = length (elements (js_prop ?b ''models''))
      \<and> (\<forall>i < length (elements (js_prop ?b ''models'')).
            r_model (results ! i) = elements (js_prop ?b ''models'') ! i)"
    by blast
  then have "length results = 2" "r_model (results ! 0) = Str ''a''"
    "r_model (results ! 1) = Str ''b''"
    by simp_all
  with r have "\<exists>results.
     snd (compare no_conversion configured ?posts [1, 0] ?b) =
       Some \<lparr>res_status = Num 200, res_json = CompareJson True results\<rparr>
     \<and> length results = 2
     \<and> r_model (results ! 0) = Str ''a'' \<and> r_model (results ! 1) = Str ''b''"
    by blast
  with p2 show ?thesis by (intro conjI)
qed

subsection \<open>C2: a failing leg does not fail the comparison\<close>

text \<open>
  C2. A validated compare request that reaches the fan-out is answered with top-level
  \<^verbatim>\<open>success: true\<close> whatever the upstream calls do. The entry of a leg whose call returned
  has \<^verbatim>\<open>success: true\<close> and the reply's fields; the entry of a leg whose call failed has
  \<^verbatim>\<open>success: false\<close>, a non-empty message and, as \<^verbatim>\<open>error_type\<close>, the upstream status or
  \<^verbatim>\<open>'unknown'\<close>. The one error of the orchestration that a validated request can meet
  with the key configured is thrown before the fan-out, by lines 287 to 290 when
  \<^verbatim>\<open>max_tokens\<close>, \<^verbatim>\<open>temperature\<close> or a model is an object with an own \<^verbatim>\<open>toString\<close>: the
  route then answers 500 \<^verbatim>\<open>Internal server error\<close> and has posted nothing. And whenever the
  route answers without \<^verbatim>\<open>success: true\<close>, nothing was posted upstream: it fails only in
  validation, on the missing key, or on an error thrown before the fan-out.
\<close>

theorem partial_failure_tolerance:
  "(valid_conversation (js_prop body ''messages'') \<and> valid_models (js_prop body ''models'')
      \<and> \<not> api_key_missing e \<and> (\<forall>i < length (elements (js_prop body ''models'')). i \<in> set order)
      \<and> convertible (js_prop body ''max_tokens'') \<and> convertible (js_prop body ''temperature'')
      \<and> convertible (js_prop body ''models'')
    \<longrightarrow> (\<exists>a b results.
           validatedMaxTokens js (js_prop body ''max_tokens'') = Inr a
         \<and> validatedTemperature js (js_prop body ''temperature'') = Inr b
         \<and> snd (compare js e posts order body) =
             Some \<lparr>res_status = Num 200, res_json = CompareJson True results\<rparr>
         \<and> length results = length (elements (js_prop body ''models''))
         \<and> (\<forall>i < length (elements (js_prop body ''models'')).
               case snd (callOpenRouter js (posts i) (js_prop body ''messages'')
                           (elements (js_prop body ''models'') ! i) a b) of
                 Inr result \<Rightarrow>
                   r_success (results ! i) \<and> r_message (results ! i) = rp_message result
                   \<and> r_usage (results ! i) = rp_usage result
                   \<and> r_finish_reason (results ! i) = rp_finish_reason result
               | Inl error \<Rightarrow>
                   \<not> r_success (results ! i)
                   \<and> r_message (results ! i) =
                       Str (if e_message error \<noteq> [] then e_message error else ''Request failed'')
                   \<and> r_error_type (results ! i) =
                       (if truthy (e_status error) then e_status error else Str ''unknown''))))
   \<and> (valid_conversation (js_prop body ''messages'') \<and> valid_models (js_prop body ''models'')
        \<and> \<not> api_key_missing e
        \<and> \<not> (convertible (js_prop body ''max_tokens'')
              \<and> convertible (js_prop body ''temperature'')
              \<and> convertible (js_prop body ''models''))
      \<longrightarrow> compare js e posts order body =
            ([], Some \<lparr>res_status = Num 500,
                       res_json = ErrorJson ''Internal server error''
                                    (Str ''Cannot convert object to primitive value'')\<rparr>))
   \<and> (\<forall>r. snd (compare js e posts order body) = Some r \<and> top_success r \<noteq> Bool True
          \<longrightarrow> fst (compare js e posts order body) = [])"
  (is "(?validated \<longrightarrow> (\<exists>a b results. ?answer a b results)) \<and> (?thrown \<longrightarrow> ?internal)
       \<and> ?failure")
proof (intro conjI impI)
  assume v: ?validated
  then obtain a b where
    a: "validatedMaxTokens js (js_prop body ''max_tokens'') = Inr a"
    and b: "validatedTemperature js (js_prop body ''temperature'') = Inr b"
    using validatedMaxTokens_convertible validatedTemperature_convertible by blast
  let ?legs = "promises js posts (js_prop body ''messages'') a b
                 (elements (js_prop body ''models''))"
  have "snd (compare js e posts order body) =
      Some \<lparr>res_status = Num 200, res_json = CompareJson True (map snd ?legs)\<rparr>"
    using v a b by (intro compare_validated) simp_all
  moreover have "length (map snd ?legs) = length (elements (js_prop body ''models''))"
    by (simp add: promises_length)
  moreover have "\<forall>i < length (elements (js_prop body ''models'')).
      case snd (callOpenRouter js (posts i) (js_prop body ''messages'')
                  (elements (js_prop body ''models'') ! i) a b) of
        Inr result \<Rightarrow>
          r_success (map snd ?legs ! i) \<and> r_message (map snd ?legs ! i) = rp_message result
          \<and> r_usage (map snd ?legs ! i) = rp_usage result
          \<and> r_finish_reason (map snd ?legs ! i) = rp_finish_reason result
      | Inl error \<Rightarrow>
          \<not> r_success (map snd ?legs ! i)
          \<and> r_message (map snd ?legs ! i) =
              Str (if e_message error \<noteq> [] then e_message error else ''Request failed'')
          \<and> r_error_type (map snd ?legs ! i) =
              (if truthy (e_status error) then e_status error else Str ''unknown'')"
    by (simp add: promises_length promises_nth leg_outcome leg_then_def leg_catch_def js_or_def
        split: sum.split)
  ultimately have "?answer a b (map snd ?legs)"
    using a b by (intro conjI)
  then show "\<exists>a b results. ?answer a b results"
    by (intro exI[where x = a] exI[where x = b] exI[where x = "map snd ?legs"])
next
  assume ?thrown
  then show ?internal
    by (intro compare_conversion_failure) simp_all
next
  show ?failure
  proof (intro allI impI)
    fix r
    assume a: "snd (compare js e posts order body) = Some r \<and> top_success r \<noteq> Bool True"
    from a have "snd (compare js e posts order body) = Some r"
      by (rule conjunct1)
    moreover from a have "top_success r \<noteq> Bool True"
      by (rule conjunct2)
    ultimately show "fst (compare js e posts order body) = []"
      by (rule compare_failure_sent)
  qed
qed

text \<open>
  One leg answered, the other timed out: both entries are in the answer. And a model that
  is an object with an own \<^verbatim>\<open>toString\<close>: the route answers 500 and posts nothing.
\<close>

theorem partial_failure_tolerance_witness:
  "(\<exists>results.
     snd (compare no_conversion configured
            (\<lambda>i rq. if i = 0 then Fulfilled completion else Rejected timed_out) [1, 0]
            (Obj [(''messages'', hello), (''models'', Arr [Str ''a'', Str ''b''])])) =
       Some \<lparr>res_status = Num 200, res_json = CompareJson True results\<rparr>
     \<and> length results = 2
     \<and> r_success (results ! 0) \<and> r_message (results ! 0) = Str ''hello''
     \<and> \<not> r_success (results ! 1)
     \<and> r_message (results ! 1) = Str ''timeout of 60000ms exceeded''
     \<and> r_error_type (results ! 1) = Str ''unknown'')
   \<and> compare no_conversion configured (\<lambda>i rq. Fulfilled completion) [0]
       (Obj [(''messages'', hello), (''models'', Arr [Obj [(''toString'', Num 1)]])]) =
     ([], Some \<lparr>res_status = Num 500,
                res_json = ErrorJson ''Internal server error''
                             (Str ''Cannot convert object to primitive value'')\<rparr>)"
proof -
  let ?b = "Obj [(''messages'', hello), (''models'', Arr [Str ''a'', Str ''b''])]"
  let ?c = "Obj [(''messages'', hello), (''models'', Arr [Obj [(''toString'', Num 1)]])]"
  let ?posts = "\<lambda>i rq. if i = (0::nat) then Fulfilled completion else Rejected timed_out"
  let ?call = "\<lambda>i. snd (callOpenRouter no_conversion (?posts i) (js_prop ?b ''messages'')
                   (elements (js_prop ?b ''models'') ! i) (Num 1000) (Num (7 / 10)))"
  have h: "valid_conversation (js_prop ?b ''messages'') \<and> valid_models (js_prop ?b ''models'')
      \<and> \<not> api_key_missing configured
      \<and> (\<forall>i < length (elements (js_prop ?b ''models'')). i \<in> set [1, 0])
      \<and> convertible (js_prop ?b ''max_tokens'') \<and> convertible (js_prop ?b ''temperature'')
      \<and> convertible (js_prop ?b ''models'')"
    by (auto simp: valid_hello valid_models_def api_key_missing_def configured_def
        less_Suc_eq numeral_2_eq_2)
  have g: "valid_conversation (js_prop ?c ''messages'') \<and> valid_models (js_prop ?c ''models'')
      \<and> \<not> api_key_missing configured
      \<and> \<not> (convertible (js_prop ?c ''max_tokens'') \<and> convertible (js_prop ?c ''temperature'')
            \<and> convertible (js_prop ?c ''models''))"
    by (auto simp: valid_hello valid_models_def api_key_missing_def configured_def)
  have c0: "?call 0 =
      Inr \<lparr>rp_message = Str ''hello'', rp_usage = Obj [], rp_finish_reason = Str ''stop''\<rparr>"
    by code_simp
  have c1: "?call 1 = Inl timed_out"
    by code_simp
  have t: "e_message timed_out = ''timeout of 60000ms exceeded''" "e_status timed_out = Undefined"
    by (simp_all add: timed_out_def Error_def)
  from partial_failure_tolerance[of ?b configured "[1, 0]" no_conversion ?posts] h
  obtain a b results where
    a: "validatedMaxTokens no_conversion (js_prop ?b ''max_tokens'') = Inr a"
    and b: "validatedTemperature no_conversion (js_prop ?b ''temperature'') = Inr b"
    and r: "snd (compare no_conversion configured ?posts [1, 0] ?b) =
       Some \<lparr>res_status = Num 200, res_json = CompareJson True results\<rparr>"
    and l: "length results = length (elements (js_prop ?b ''models''))"
    and c: "\<And>i. i < length (elements (js_prop ?b ''models'')) \<Longrightarrow>
               (case snd (callOpenRouter no_conversion (?posts i) (js_prop ?b ''messages'')
                           (elements (js_prop ?b ''models'') ! i) a b) of
                 Inr result \<Rightarrow>
                   r_success (results ! i) \<and> r_message (results ! i) = rp_message result
                   \<and> r_usage (results ! i) = rp_usage result
                   \<and> r_finish_reason (results ! i) = rp_finish_reason result
               | Inl error \<Rightarrow>
                   \<not> r_success (results ! i)
                   \<and> r_message (results ! i) =
                       Str (if e_message error \<noteq> [] then e_message error else ''Request failed'')
                   \<and> r_error_type (results ! i) =
                       (if truthy (e_status error) then e_status error else Str ''unknown''))"
    by blast
  from a b have ab: "a = Num 1000" "b = Num (7 / 10)"
    by (simp_all add: validatedMaxTokens_simps validatedTemperature_simps)
  have p0: "r_success (results ! 0) \<and> r_message (results ! 0) = Str ''hello''"
    using c[of 0] unfolding ab c0 by simp
  have p1: "\<not> r_success (results ! 1)
     \<and> r_message (results ! 1) = Str ''timeout of 60000ms exceeded''
     \<and> r_error_type (results ! 1) = Str ''unknown''"
    using c[of 1] unfolding ab c1 by (simp add: t)
  have p2: "compare no_conversion configured (\<lambda>i rq. Fulfilled completion) [0] ?c =
     ([], Some \<lparr>res_status = Num 500,
                res_json = ErrorJson ''Internal server error''
                             (Str ''Cannot convert object to primitive value'')\<rparr>)"
    using partial_failure_tolerance[of ?c configured "[0]" no_conversion
        "\<lambda>i rq. Fulfilled completion"] g
    by blast
  from r l p0 p1 have "\<exists>results.
     snd (compare no_conversion configured ?posts [1, 0] ?b) =
       Some \<lparr>res_status = Num 200, res_json = CompareJson True results\<rparr>
     \<and> length results = 2
     \<and> r_success (results ! 0) \<and> r_message (results ! 0) = Str ''hello''
     \<and> \<not> r_success (results ! 1)
     \<and> r_message (results ! 1) = Str ''timeout of 60000ms exceeded''
     \<and> r_error_type (results ! 1) = Str ''unknown''"
    by auto
  with p2 show ?thesis by (intro conjI)
qed

subsection \<open>C3: the error classifier\<close>

text \<open>
  C3 says that one table maps a failure of the upstream caller to the client's status and
  error kind, and that the chat route and each leg of the compare route apply it alike.
  The chat route does apply the table. A compare leg does not: it embeds the error's
  message and, as \<^verbatim>\<open>error_type\<close>, the upstream status or \<^verbatim>\<open>'unknown'\<close>. For a call that
  timed out the chat route answers 504 \<^verbatim>\<open>Gateway timeout\<close>, while the leg's entry carries
  \<^verbatim>\<open>error_type: 'unknown'\<close> and the transport's own message.
\<close>

theorem error_classification_counterexample:
  "snd (chat no_conversion configured (\<lambda>rq. Rejected timed_out) (Obj [(''messages'', hello)])) =
     reject 504 ''Gateway timeout'' ''Request to OpenRouter API timed out''
   \<and> snd (compare no_conversion configured (\<lambda>i rq. Rejected timed_out) [0]
            (Obj [(''messages'', hello), (''models'', Arr [Str ''openai/gpt-4o''])])) =
     Some \<lparr>res_status = Num 200,
           res_json = CompareJson True
             [\<lparr>r_success = False, r_model = Str ''openai/gpt-4o'',
               r_message = Str ''timeout of 60000ms exceeded'',
               r_usage = Undefined, r_finish_reason = Undefined, r_error = Bool True,
               r_error_type = Str ''unknown''\<rparr>]\<rparr>"
  by code_simp

text \<open>
  C3, amended. In the chat route, an error \<open>er\<close> thrown by the caller (which the route
  calls once lines 162 to 165 have given the parameters \<open>a\<close> and \<open>b\<close> and logged the
  model) is answered by the table: status 401, 402, 404, 429 and 400 each with its own kind, any other truthy status
  with that status and \<^verbatim>\<open>OpenRouter API error\<close>; without a status, the codes
  \<^verbatim>\<open>ECONNABORTED\<close> and \<^verbatim>\<open>ETIMEDOUT\<close> with 504, \<^verbatim>\<open>ECONNREFUSED\<close> and \<^verbatim>\<open>ENOTFOUND\<close> with
  503, anything else with 500 \<^verbatim>\<open>Internal server error\<close>. In the compare route, the leg's
  entry has \<^verbatim>\<open>success: false\<close>, the error's message (or \<^verbatim>\<open>'Request failed'\<close>) and
  \<^verbatim>\<open>error_type\<close> the status (or \<^verbatim>\<open>'unknown'\<close>); no client status or kind is assigned.
\<close>

theorem error_classification:
  "(e_status er = Num 401 \<longrightarrow>
      chat_catch er = reject 401 ''Authentication failed'' ''Invalid OpenRouter API key'')
   \<and> (e_status er = Num 402 \<longrightarrow>
      chat_catch er =
        reject 402 ''Payment required'' ''Insufficient credits on OpenRouter account'')
   \<and> (e_status er = Num 404 \<longrightarrow>
      chat_catch er = reject 404 ''Model not found'' ''The specified model is not available'')
   \<and> (e_status er = Num 429 \<longrightarrow>
      chat_catch er = reject 429 ''Rate limit exceeded'' ''Too many requests to OpenRouter API'')
   \<and> (e_status er = Num 400 \<longrightarrow>
      chat_catch er =
        \<lparr>res_status = Num 400,
         res_json = ErrorJson ''Bad request''
           (js_or (opt_get (opt_get (e_data er) ''error'') ''message'')
                  (Str ''Invalid request to OpenRouter API''))\<rparr>)
   \<and> (truthy (e_status er)
        \<and> e_status er \<notin> {Num 401, Num 402, Num 404, Num 429, Num 400} \<longrightarrow>
      chat_catch er =
        \<lparr>res_status = e_status er,
         res_json = ErrorJson ''OpenRouter API error''
           (js_or (opt_get (opt_get (e_data er) ''error'') ''message'')
                  (Str ''Unknown error occurred''))\<rparr>)
   \<and> (\<not> truthy (e_status er) \<and> e_code er \<in> {Str ''ECONNABORTED'', Str ''ETIMEDOUT''} \<longrightarrow>
      chat_catch er = reject 504 ''Gateway timeout'' ''Request to OpenRouter API timed out'')
   \<and> (\<not> truthy (e_status er) \<and> e_code er \<in> {Str ''ECONNREFUSED'', Str ''ENOTFOUND''} \<longrightarrow>
      chat_catch er = reject 503 ''Service unavailable'' ''Unable to reach OpenRouter API'')
   \<and> (\<not> truthy (e_status er)
        \<and> e_code er \<notin> {Str ''ECONNABORTED'', Str ''ETIMEDOUT'', Str ''ECONNREFUSED'',
                         Str ''ENOTFOUND''} \<longrightarrow>
      chat_catch er =
        \<lparr>res_status = Num 500,
         res_json = ErrorJson ''Internal server error'' (Str (e_message er))\<rparr>)
   \<and> (valid_conversation (js_prop body ''messages'') \<and> \<not> api_key_missing e
        \<and> validatedMaxTokens js (js_prop body ''max_tokens'') = Inr a
        \<and> validatedTemperature js (js_prop body ''temperature'') = Inr b
        \<and> ToString js (js_or (js_prop body ''model'') (Str (DEFAULT_MODEL e))) = Inr s
        \<and> snd (callOpenRouter js post (js_prop body ''messages'')
                  (js_or (js_prop body ''model'') (Str (DEFAULT_MODEL e))) a b) = Inl er \<longrightarrow>
      snd (chat js e post body) = chat_catch er)
   \<and> (snd (callOpenRouter js post messages model mt t) = Inl er \<longrightarrow>
      snd (leg js post messages mt t model) =
        \<lparr>r_success = False, r_model = model,
         r_message = Str (if e_message er \<noteq> [] then e_message er else ''Request failed''),
         r_usage = Undefined, r_finish_reason = Undefined, r_error = Bool True,
         r_error_type = (if truthy (e_status er) then e_status er else Str ''unknown'')\<rparr>)"
proof (intro conjI impI)
  assume "valid_conversation (js_prop body ''messages'') \<and> \<not> api_key_missing e
        \<and> validatedMaxTokens js (js_prop body ''max_tokens'') = Inr a
        \<and> validatedTemperature js (js_prop body ''temperature'') = Inr b
        \<and> ToString js (js_or (js_prop body ''model'') (Str (DEFAULT_MODEL e))) = Inr s
        \<and> snd (callOpenRouter js post (js_prop body ''messages'')
                  (js_or (js_prop body ''model'') (Str (DEFAULT_MODEL e))) a b) = Inl er"
  then show "snd (chat js e post body) = chat_catch er"
    using chat_caller_failure[of body e js a b s post er] by blast
next
  assume "snd (callOpenRouter js post messages model mt t) = Inl er"
  then show "snd (leg js post messages mt t model) =
        \<lparr>r_success = False, r_model = model,
         r_message = Str (if e_message er \<noteq> [] then e_message er else ''Request failed''),
         r_usage = Undefined, r_finish_reason = Undefined, r_error = Bool True,
         r_error_type = (if truthy (e_status er) then e_status er else Str ''unknown'')\<rparr>"
    by (simp add: leg_caller_failure leg_catch_def js_or_def)
qed (auto simp: chat_catch_def Let_def)

text \<open>An upstream 401 and a timeout, each through both routes.\<close>

theorem error_classification_witness:
  "snd (chat no_conversion configured (\<lambda>rq. Rejected unauthorized)
          (Obj [(''messages'', hello)])) =
     reject 401 ''Authentication failed'' ''Invalid OpenRouter API key''
   \<and> snd (leg no_conversion (\<lambda>rq. Rejected unauthorized) hello (Num 1000) (Num (7 / 10))
            (Str ''openai/gpt-4o'')) =
     \<lparr>r_success = False, r_model = Str ''openai/gpt-4o'', r_message = Str ''No auth'',
      r_usage = Undefined, r_finish_reason = Undefined, r_error = Bool True,
      r_error_type = Num 401\<rparr>
   \<and> snd (chat no_conversion configured (\<lambda>rq. Rejected timed_out)
            (Obj [(''messages'', hello)])) =
     reject 504 ''Gateway timeout'' ''Request to OpenRouter API timed out''
   \<and> snd (leg no_conversion (\<lambda>rq. Rejected timed_out) hello (Num 1000) (Num (7 / 10))
            (Str ''openai/gpt-4o'')) =
     \<lparr>r_success = False, r_model = Str ''openai/gpt-4o'',
      r_message = Str ''timeout of 60000ms exceeded'',
      r_usage = Undefined, r_finish_reason = Undefined, r_error = Bool True,
      r_error_type = Str ''unknown''\<rparr>"
proof -
  let ?b = "Obj [(''messages'', hello)]"
  let ?er = "(Error ''No auth'')
               \<lparr>e_status := Num 401,
                e_data := Obj [(''error'', Obj [(''message'', Str ''No auth'')])]\<rparr>"
  let ?route = "\<lambda>post. snd (callOpenRouter no_conversion post (js_prop ?b ''messages'')
                  (js_or (js_prop ?b ''model'') (Str (DEFAULT_MODEL configured)))
                  (Num 1000) (Num (7 / 10)))"
  let ?leg = "\<lambda>post. snd (callOpenRouter no_conversion post hello
                  (Str ''openai/gpt-4o'') (Num 1000) (Num (7 / 10)))"
  have u: "?route (\<lambda>rq. Rejected unauthorized) = Inl ?er"
    "?leg (\<lambda>rq. Rejected unauthorized) = Inl ?er"
    by code_simp+
  have c: "?route (\<lambda>rq. Rejected timed_out) = Inl timed_out"
    "?leg (\<lambda>rq. Rejected timed_out) = Inl timed_out"
    by code_simp+
  have v: "valid_conversation (js_prop ?b ''messages'')"
    by (simp add: valid_hello)
  have k: "\<not> api_key_missing configured"
    by (simp add: api_key_missing_def configured_def)
  have t: "\<not> truthy (e_status timed_out)" "e_code timed_out = Str ''ECONNABORTED''"
    "e_message timed_out = ''timeout of 60000ms exceeded''"
    by (simp_all add: timed_out_def Error_def)
  have s: "e_status ?er = Num 401" "e_message ?er = ''No auth''"
    by (simp_all add: Error_def)
  have p: "validatedMaxTokens no_conversion (js_prop ?b ''max_tokens'') = Inr (Num 1000)"
    "validatedTemperature no_conversion (js_prop ?b ''temperature'') = Inr (Num (7 / 10))"
    "ToString no_conversion (js_or (js_prop ?b ''model'') (Str (DEFAULT_MODEL configured))) =
       Inr ''openai/gpt-oss-20b:free''"
    by (simp_all add: validatedMaxTokens_simps validatedTemperature_simps js_or_def
        DEFAULT_MODEL_def configured_def)
  show ?thesis
    using error_classification[of ?er ?b configured no_conversion "Num 1000" "Num (7 / 10)"
        "''openai/gpt-oss-20b:free''" "\<lambda>rq. Rejected unauthorized"
        hello "Str ''openai/gpt-4o''" "Num 1000" "Num (7 / 10)"]
      error_classification[of timed_out ?b configured no_conversion "Num 1000" "Num (7 / 10)"
        "''openai/gpt-oss-20b:free''" "\<lambda>rq. Rejected timed_out"
        hello "Str ''openai/gpt-4o''" "Num 1000" "Num (7 / 10)"]
      u c v k t s p
    by simp
qed

subsection \<open>C4: the parameters sent upstream\<close>

text \<open>
  Where the two parameter lines do what their names say. Every body that the chat route
  or the compare route posts upstream carries a \<^verbatim>\<open>max_tokens\<close> that is a number above 0
  and at most 4000: it is 1000 when the field is absent (or falsy), not a number
  (\<^verbatim>\<open>Number(max_tokens)\<close> is \<^verbatim>\<open>NaN\<close>) or not positive, and the minimum of the number and
  4000 otherwise. Its \<^verbatim>\<open>temperature\<close> is 0.7 when the field is absent, and the number
  clamped into the range from 0 to 2 when the field is a number or converts to one. In
  the chat route the model is the configured default when the field is absent (or falsy).
\<close>

lemma parameter_normalisation:
  assumes "rq \<in> set (fst (chat js e post body)) \<or> rq \<in> set (fst (compare js e posts order body))"
  shows "(\<exists>r. rq_max_tokens rq = Num r \<and> 0 < r \<and> r \<le> 4000)
       \<and> (js_prop body ''max_tokens'' = Undefined \<longrightarrow> rq_max_tokens rq = Num 1000)
       \<and> (\<forall>n. js_prop body ''max_tokens'' = Num n \<longrightarrow>
              rq_max_tokens rq = (if 0 < n then Num (min n 4000) else Num 1000))
       \<and> (\<not> truthy (js_prop body ''max_tokens'')
            \<or> ToNumber js (js_prop body ''max_tokens'') = Inr NaN \<longrightarrow>
              rq_max_tokens rq = Num 1000)
       \<and> (\<forall>n. truthy (js_prop body ''max_tokens'')
              \<and> ToNumber js (js_prop body ''max_tokens'') = Inr (Num n) \<longrightarrow>
              rq_max_tokens rq = (if 0 < n then Num (min n 4000) else Num 1000))
       \<and> (js_prop body ''temperature'' = Undefined \<longrightarrow> rq_temperature rq = Num (7 / 10))
       \<and> (\<forall>t. js_prop body ''temperature'' = Num t \<longrightarrow>
              rq_temperature rq = Num (max 0 (min t 2)))
       \<and> (\<forall>t. js_prop body ''temperature'' \<noteq> Undefined
              \<and> ToNumber js (js_prop body ''temperature'') = Inr (Num t) \<longrightarrow>
              rq_temperature rq = Num (max 0 (min t 2)))
       \<and> (rq \<in> set (fst (chat js e post body)) \<and> \<not> truthy (js_prop body ''model'') \<longrightarrow>
              rq_model rq = Str (DEFAULT_MODEL e))"
proof -
  from assms chat_sent[of rq js e post body] compare_sent[of rq js e posts order body]
  obtain a b where
    a: "validatedMaxTokens js (js_prop body ''max_tokens'') = Inr a"
    and b: "validatedTemperature js (js_prop body ''temperature'') = Inr b"
    and mt: "rq_max_tokens rq = a" and tp: "rq_temperature rq = b"
    by auto
  have md: "rq \<in> set (fst (chat js e post body)) \<Longrightarrow> \<not> truthy (js_prop body ''model'') \<Longrightarrow>
      rq_model rq = Str (DEFAULT_MODEL e)"
    using chat_sent[of rq js e post body] by (auto simp: js_or_def)
  have 1: "\<exists>r. rq_max_tokens rq = Num r \<and> 0 < r \<and> r \<le> 4000"
    using validatedMaxTokens_range[OF a] mt by simp
  have 2: "js_prop body ''max_tokens'' = Undefined \<Longrightarrow> rq_max_tokens rq = Num 1000"
    using a mt by (simp add: validatedMaxTokens_simps)
  have 3: "js_prop body ''max_tokens'' = Num n \<Longrightarrow>
      rq_max_tokens rq = (if 0 < n then Num (min n 4000) else Num 1000)" for n
    using a mt by (simp add: validatedMaxTokens_simps)
  have 4: "\<not> truthy (js_prop body ''max_tokens'')
        \<or> ToNumber js (js_prop body ''max_tokens'') = Inr NaN \<Longrightarrow> rq_max_tokens rq = Num 1000"
    using a mt validatedMaxTokens_default[of "js_prop body ''max_tokens''" js] by simp
  have 5: "truthy (js_prop body ''max_tokens'')
        \<and> ToNumber js (js_prop body ''max_tokens'') = Inr (Num n) \<Longrightarrow>
      rq_max_tokens rq = (if 0 < n then Num (min n 4000) else Num 1000)" for n
    using a mt validatedMaxTokens_number[of "js_prop body ''max_tokens''" js n] by simp
  have 6: "js_prop body ''temperature'' = Undefined \<Longrightarrow> rq_temperature rq = Num (7 / 10)"
    using b tp by (simp add: validatedTemperature_simps)
  have 7: "js_prop body ''temperature'' = Num t \<Longrightarrow> rq_temperature rq = Num (max 0 (min t 2))" for t
    using b tp by (simp add: validatedTemperature_simps)
  have 8: "js_prop body ''temperature'' \<noteq> Undefined
        \<and> ToNumber js (js_prop body ''temperature'') = Inr (Num t) \<Longrightarrow>
      rq_temperature rq = Num (max 0 (min t 2))" for t
    using b tp validatedTemperature_number[of "js_prop body ''temperature''" js t] by simp
  show ?thesis
    using 1 2 3 4 5 6 7 8 md by blast
qed

text \<open>
  \<^verbatim>\<open>max_tokens = 999999\<close> becomes 4000 and \<^verbatim>\<open>temperature = 5\<close> becomes 2 (chat);
  \<^verbatim>\<open>max_tokens = -3\<close> becomes 1000 and \<^verbatim>\<open>temperature = -1\<close> becomes 0 (compare). The
  values of the one body each route posts are read off the lemma.
\<close>

lemma parameter_normalisation_examples:
  "\<lparr>rq_model = Str ''openai/gpt-oss-20b:free'', rq_messages = hello,
     rq_max_tokens = Num 4000, rq_temperature = Num 2\<rparr>
     \<in> set (fst (chat no_conversion configured (\<lambda>rq. Fulfilled completion)
                 (Obj [(''messages'', hello), (''max_tokens'', Num 999999),
                       (''temperature'', Num 5)])))
   \<and> length (fst (chat no_conversion configured (\<lambda>rq. Fulfilled completion)
                 (Obj [(''messages'', hello), (''max_tokens'', Num 999999),
                       (''temperature'', Num 5)]))) = 1
   \<and> \<lparr>rq_model = Str ''a'', rq_messages = hello,
        rq_max_tokens = Num 1000, rq_temperature = Num 0\<rparr>
     \<in> set (fst (compare no_conversion configured (\<lambda>i rq. Fulfilled completion) [0]
                 (Obj [(''messages'', hello), (''models'', Arr [Str ''a'']),
                       (''max_tokens'', Num (- 3)), (''temperature'', Num (- 1))])))
   \<and> length (fst (compare no_conversion configured (\<lambda>i rq. Fulfilled completion) [0]
                 (Obj [(''messages'', hello), (''models'', Arr [Str ''a'']),
                       (''max_tokens'', Num (- 3)), (''temperature'', Num (- 1))]))) = 1"
proof -
  let ?b1 = "Obj [(''messages'', hello), (''max_tokens'', Num 999999), (''temperature'', Num 5)]"
  let ?b2 = "Obj [(''messages'', hello), (''models'', Arr [Str ''a'']),
                       (''max_tokens'', Num (- 3)), (''temperature'', Num (- 1))]"
  let ?chat = "chat no_conversion configured (\<lambda>rq. Fulfilled completion) ?b1"
  let ?compare = "compare no_conversion configured (\<lambda>i rq. Fulfilled completion) [0] ?b2"
  have l1: "length (fst ?chat) = 1"
    by code_simp
  have l2: "length (fst ?compare) = 1"
    by code_simp
  have m1: "rq_messages (hd (fst ?chat)) = hello"
    by code_simp
  have m2: "rq_messages (hd (fst ?compare)) = hello" "rq_model (hd (fst ?compare)) = Str ''a''"
    by code_simp+
  have d: "DEFAULT_MODEL configured = ''openai/gpt-oss-20b:free''"
    by (simp add: DEFAULT_MODEL_def configured_def)
  from l1 have i1: "hd (fst ?chat) \<in> set (fst ?chat)"
    by (cases "fst ?chat") simp_all
  from l2 have i2: "hd (fst ?compare) \<in> set (fst ?compare)"
    by (cases "fst ?compare") simp_all
  from i1 have "hd (fst ?chat) \<in> set (fst ?chat)
      \<or> hd (fst ?chat) \<in> set (fst (compare no_conversion configured
                                      (\<lambda>i rq. Fulfilled completion) [0] ?b1))"
    by (rule disjI1)
  from parameter_normalisation[OF this] i1
  have p1: "rq_max_tokens (hd (fst ?chat)) = Num 4000"
    "rq_temperature (hd (fst ?chat)) = Num 2"
    "rq_model (hd (fst ?chat)) = Str ''openai/gpt-oss-20b:free''"
    by (simp_all add: d)
  from i2 have "hd (fst ?compare) \<in> set (fst (chat no_conversion configured
                                              (\<lambda>rq. Fulfilled completion) ?b2))
      \<or> hd (fst ?compare) \<in> set (fst ?compare)"
    by (rule disjI2)
  from parameter_normalisation[OF this]
  have p2: "rq_max_tokens (hd (fst ?compare)) = Num 1000"
    "rq_temperature (hd (fst ?compare)) = Num 0"
    by simp_all
  have e1: "hd (fst ?chat) = \<lparr>rq_model = Str ''openai/gpt-oss-20b:free'', rq_messages = hello,
     rq_max_tokens = Num 4000, rq_temperature = Num 2\<rparr>"
    using p1 m1 by (cases "hd (fst ?chat)") simp
  have e2: "hd (fst ?compare) = \<lparr>rq_model = Str ''a'', rq_messages = hello,
        rq_max_tokens = Num 1000, rq_temperature = Num 0\<rparr>"
    using p2 m2 by (cases "hd (fst ?compare)") simp
  from i1 i2 l1 l2 show ?thesis
    unfolding e1 e2 by (intro conjI)
qed

text \<open>
  C4 asks that every accepted request be posted with \<^verbatim>\<open>max_tokens\<close> defaulted or capped
  at 4000, with \<^verbatim>\<open>temperature\<close> defaulted or clamped into the range from 0 to 2, and, in
  the chat route, with the default model when none is given. For numbers the routes do so
  (lemma \<open>parameter_normalisation\<close>). But line 163 clamps with \<^verbatim>\<open>Math.min\<close> and
  \<^verbatim>\<open>Math.max\<close> whatever the field is: a chat request with the temperature \<^verbatim>\<open>{}\<close> is
  accepted and answered, and the body posted for it carries the temperature \<open>NaN\<close>,
  which is no value between 0 and 2.
\<close>

theorem temperature_not_clamped:
  "chat js configured (\<lambda>rq. Fulfilled completion)
     (Obj [(''messages'', hello), (''temperature'', Obj [])]) =
     ([\<lparr>rq_model = Str ''openai/gpt-oss-20b:free'', rq_messages = hello,
        rq_max_tokens = Num 1000, rq_temperature = NaN\<rparr>],
      \<lparr>res_status = Num 200,
       res_json = ChatJson True (Str ''hello'') (Str ''openai/gpt-oss-20b:free'') (Obj [])
                    (Str ''stop'')\<rparr>)
   \<and> validatedTemperature js (Obj []) = Inr NaN"
  by (simp add: chat_def chat_try_def callOpenRouter_def hello_def completion_def get_def
      extract_reply_def js_or_def api_key_missing_def configured_def DEFAULT_MODEL_def
      validatedMaxTokens_simps validatedTemperature_def Math_min_def Math_max_def Let_def)

text \<open>The temperature posted is no number at all.\<close>

theorem temperature_not_clamped_witness:
  "\<exists>rq. fst (chat no_conversion configured (\<lambda>rq. Fulfilled completion)
               (Obj [(''messages'', hello), (''temperature'', Obj [])])) = [rq]
        \<and> rq_temperature rq = NaN \<and> (\<forall>r. rq_temperature rq \<noteq> Num r)
        \<and> res_status (snd (chat no_conversion configured (\<lambda>rq. Fulfilled completion)
               (Obj [(''messages'', hello), (''temperature'', Obj [])]))) = Num 200"
  using temperature_not_clamped[of no_conversion]
  by simp

subsection \<open>C5: messages without role or content, or with an unknown role\<close>




subsection \<open>C6: the model list of a compare request\<close>

text \<open>
  C6 asks that a compare request whose \<^verbatim>\<open>models\<close> list is missing, not an array, empty
  or longer than five entries be rejected as an invalid request, with nothing posted
  upstream. For a parsed body the route does so (lemma \<open>models_required\<close>: status 400,
  \<^verbatim>\<open>Invalid request\<close> or, for the list that is too long, \<^verbatim>\<open>Too many models\<close>). A request
  without a parsed body has no \<^verbatim>\<open>models\<close> list either, and it never reaches the test of
  line 253: \<^verbatim>\<open>req.body\<close> is \<^verbatim>\<open>undefined\<close>, the destructuring of line 243 throws a
  \<^verbatim>\<open>TypeError\<close>, and the route answers 500 \<^verbatim>\<open>Internal server error\<close> with that error's
  message (nothing is posted).
\<close>

theorem models_required_no_body:
  "compare js e posts order Undefined =
     ([], Some \<lparr>res_status = Num 500,
                res_json = ErrorJson ''Internal server error''
                             (Str (e_message (destructure_error Undefined)))\<rparr>)
   \<and> js_prop Undefined ''models'' = Undefined"
  by (simp add: compare_def compare_try_def)

text \<open>The answer is not the rejection of line 254.\<close>

theorem models_required_no_body_witness:
  "compare no_conversion configured (\<lambda>i rq. Fulfilled completion) [0] Undefined =
     ([], Some \<lparr>res_status = Num 500,
                res_json = ErrorJson ''Internal server error''
                             (Str (e_message (destructure_error Undefined)))\<rparr>)
   \<and> snd (compare no_conversion configured (\<lambda>i rq. Fulfilled completion) [0] Undefined) \<noteq>
       Some (reject 400 ''Invalid request'' ''Models array is required for compare mode'')"
  using models_required_no_body[of no_conversion configured "\<lambda>i rq. Fulfilled completion" "[0]"]
  by (simp add: reject_def)

subsection \<open>C7: the conversation is required\<close>

text \<open>
  C7 asks that a chat or compare request whose \<^verbatim>\<open>messages\<close> field is missing, not an
  array or an empty array be rejected as an invalid request, with nothing posted
  upstream. For a parsed body both routes do so (lemma \<open>messages_required\<close>: 400
  \<^verbatim>\<open>Invalid request\<close>). A request without a parsed body has no \<^verbatim>\<open>messages\<close> either, and
  it never reaches the test of lines 135 and 246: \<^verbatim>\<open>req.body\<close> is \<^verbatim>\<open>undefined\<close>, the
  destructuring of lines 132 and 243 throws a \<^verbatim>\<open>TypeError\<close>, and both routes answer 500
  \<^verbatim>\<open>Internal server error\<close> with that error's message (nothing is posted).
\<close>

theorem messages_required_no_body:
  "chat js e post Undefined =
     ([], \<lparr>res_status = Num 500,
           res_json = ErrorJson ''Internal server error''
                        (Str (e_message (destructure_error Undefined)))\<rparr>)
   \<and> compare js e posts order Undefined =
     ([], Some \<lparr>res_status = Num 500,
                res_json = ErrorJson ''Internal server error''
                             (Str (e_message (destructure_error Undefined)))\<rparr>)
   \<and> js_prop Undefined ''messages'' = Undefined"
  by (simp add: chat_def chat_try_def chat_catch_def compare_def compare_try_def
      destructure_error_def Error_def)

text \<open>The answer is not the rejection of lines 136 and 247.\<close>

theorem messages_required_no_body_witness:
  "snd (chat no_conversion configured (\<lambda>rq. Fulfilled completion) Undefined) \<noteq>
     reject 400 ''Invalid request'' ''Messages array is required and must not be empty''
   \<and> res_status (snd (chat no_conversion configured (\<lambda>rq. Fulfilled completion) Undefined)) =
       Num 500
   \<and> snd (compare no_conversion configured (\<lambda>i rq. Fulfilled completion) [0] Undefined) \<noteq>
       Some (reject 400 ''Invalid request''
               ''Messages array is required and must not be empty'')"
  using messages_required_no_body[of no_conversion configured "\<lambda>rq. Fulfilled completion"
      "\<lambda>i rq. Fulfilled completion" "[0]"]
  by (simp add: reject_def)

subsection \<open>C8: the key is required\<close>

text \<open>
  C8. When \<^verbatim>\<open>OPENROUTER_API_KEY\<close> is not configured, a chat request with a valid
  conversation, and a compare request with a valid conversation and a valid model list,
  is answered with 500 \<^verbatim>\<open>Server configuration error\<close>, and nothing is posted upstream.
\<close>

theorem api_key_required:
  assumes "api_key_missing e"
    and "valid_conversation (js_prop body ''messages'')"
  shows "chat js e post body =
           ([], reject 500 ''Server configuration error'' ''OpenRouter API key not configured'')
       \<and> (valid_models (js_prop body ''models'') \<longrightarrow>
            compare js e posts order body =
              ([], Some (reject 500 ''Server configuration error''
                           ''OpenRouter API key not configured'')))"
proof -
  have nb: "\<not> nullish body"
    using assms(2) js_prop_nullish[of body] by (auto simp: valid_conversation_def)
  have bf: "bad_format (elements (js_prop body ''messages'')) = Inr False"
    using assms(2) by (simp add: valid_conversation_def bad_format_False)
  have ms: "truthy (js_prop body ''messages'')" "isArray (js_prop body ''messages'')"
    "elements (js_prop body ''messages'') \<noteq> []"
    using assms(2) by (auto simp: valid_conversation_def isArray_truthy)
  show ?thesis
    using nb bf ms assms(1)
    by (auto simp: chat_def chat_try_def compare_def compare_try_def get_def Let_def
        valid_models_def isArray_truthy)
qed

text \<open>The environment without the key.\<close>

theorem api_key_required_witness:
  "api_key_missing unconfigured
   \<and> chat no_conversion unconfigured (\<lambda>rq. Fulfilled completion)
         (Obj [(''messages'', hello), (''models'', Arr [Str ''a''])]) =
       ([], reject 500 ''Server configuration error'' ''OpenRouter API key not configured'')
   \<and> compare no_conversion unconfigured (\<lambda>i rq. Fulfilled completion) [0]
         (Obj [(''messages'', hello), (''models'', Arr [Str ''a''])]) =
       ([], Some (reject 500 ''Server configuration error''
                    ''OpenRouter API key not configured''))"
proof -
  have k: "api_key_missing unconfigured"
    by (simp add: api_key_missing_def unconfigured_def)
  have v: "valid_conversation (js_prop (Obj [(''messages'', hello), (''models'', Arr [Str ''a''])]) ''messages'')"
    by (simp add: valid_hello)
  show ?thesis
    using k api_key_required[OF k v, of no_conversion "\<lambda>rq. Fulfilled completion"
        "\<lambda>i rq. Fulfilled completion" "[0]"]
    by (simp add: valid_models_def)
qed

subsection \<open>C9: the payload of the upstream answer\<close>

text \<open>
  C9 asks that a payload without the expected reply structure make the caller fail with
  the unexpected-format error, and that a payload with the structure give the reply. The
  caller's test is \<^verbatim>\<open>choices && choices[0]\<close> (line 108), and where it decides, it decides
  so (lemma \<open>callOpenRouter_reply\<close>). The payload \<^verbatim>\<open>{choices: [{}]}\<close> has no reply, yet
  passes the test: reading \<^verbatim>\<open>choices[0].message.content\<close> throws a \<^verbatim>\<open>TypeError\<close>, the
  caller fails with it instead of the unexpected-format error, and the chat route answers
  500 \<^verbatim>\<open>Internal server error\<close> with the \<^verbatim>\<open>TypeError\<close>'s message. The payload \<^verbatim>\<open>null\<close>
  throws in the test itself.
\<close>

theorem reply_without_message:
  "callOpenRouter js (\<lambda>rq. Fulfilled (Obj [(''choices'', Arr [Obj []])]))
       hello (Str ''openai/gpt-4o'') (Num 1000) (Num (7 / 10)) =
     ([\<lparr>rq_model = Str ''openai/gpt-4o'', rq_messages = hello, rq_max_tokens = Num 1000,
        rq_temperature = Num (7 / 10)\<rparr>],
      Inl (TypeError Undefined ''content''))
   \<and> snd (callOpenRouter js (\<lambda>rq. Fulfilled Null)
            hello (Str ''openai/gpt-4o'') (Num 1000) (Num (7 / 10))) =
     Inl (TypeError Null ''choices'')
   \<and> snd (chat js configured (\<lambda>rq. Fulfilled (Obj [(''choices'', Arr [Obj []])]))
            (Obj [(''messages'', hello)])) =
     \<lparr>res_status = Num 500,
      res_json = ErrorJson ''Internal server error''
                   (Str (e_message (TypeError Undefined ''content'')))\<rparr>"
  by (simp add: callOpenRouter_def hello_def get_def extract_reply_def rethrow_def
      TypeError_def Error_def chat_def chat_try_def chat_catch_def js_or_def
      api_key_missing_def configured_def DEFAULT_MODEL_def
      validatedMaxTokens_simps validatedTemperature_simps)

text \<open>The error is not the unexpected-format error.\<close>

theorem reply_without_message_witness:
  "(\<exists>er. snd (callOpenRouter no_conversion
                 (\<lambda>rq. Fulfilled (Obj [(''choices'', Arr [Obj []])]))
                 hello (Str ''openai/gpt-4o'') (Num 1000) (Num (7 / 10))) = Inl er
         \<and> er \<noteq> Error ''Unexpected response format from OpenRouter'')
   \<and> snd (chat no_conversion configured
            (\<lambda>rq. Fulfilled (Obj [(''choices'', Arr [Obj []])]))
            (Obj [(''messages'', hello)])) \<noteq>
     \<lparr>res_status = Num 500,
      res_json = ErrorJson ''Internal server error''
                   (Str ''Unexpected response format from OpenRouter'')\<rparr>"
  using reply_without_message[of no_conversion]
  by (simp add: TypeError_def Error_def)

subsection \<open>C10: the model named in the chat answer\<close>

text \<open>
  C10. In a successful answer of the chat route, the \<^verbatim>\<open>model\<close> field is the request's
  \<^verbatim>\<open>model\<close> when that is supplied (truthy), and the configured default otherwise. It is
  computed from the request and the configuration alone, whatever the upstream answers.
\<close>

theorem chat_model_field:
  assumes "snd (chat js e post body) =
             \<lparr>res_status = st, res_json = ChatJson ok msg mdl usage fin\<rparr>"
  shows "mdl = (if truthy (js_prop body ''model'') then js_prop body ''model''
                else Str (DEFAULT_MODEL e))"
proof (cases "chat_try js e post body")
  case (Pair sent r)
  show ?thesis
  proof (cases r)
    case (Inl er)
    then show ?thesis
      using assms Pair chat_catch_error[of er] by (auto simp: chat_def)
  next
    case (Inr res)
    then have "res = \<lparr>res_status = st, res_json = ChatJson ok msg mdl usage fin\<rparr>"
      using assms Pair by (simp add: chat_def)
    with Pair Inr show ?thesis
      using chat_try_success[of js e post body sent st ok msg mdl usage fin]
      by (simp add: js_or_def)
  qed
qed

text \<open>
  The upstream names \<^verbatim>\<open>upstream/other\<close> as the model that served the call; the answer
  names the requested model, or the default.
\<close>

theorem chat_model_field_witness:
  "snd (chat no_conversion configured (\<lambda>rq. Fulfilled completion)
          (Obj [(''messages'', hello), (''model'', Str ''openai/gpt-4o'')])) =
     \<lparr>res_status = Num 200,
      res_json = ChatJson True (Str ''hello'') (Str ''openai/gpt-4o'') (Obj []) (Str ''stop'')\<rparr>
   \<and> js_prop completion ''model'' = Str ''upstream/other''
   \<and> snd (chat no_conversion configured (\<lambda>rq. Fulfilled completion)
          (Obj [(''messages'', hello)])) =
     \<lparr>res_status = Num 200,
      res_json = ChatJson True (Str ''hello'') (Str (DEFAULT_MODEL configured)) (Obj [])
                   (Str ''stop'')\<rparr>"
proof -
  have r1: "snd (chat no_conversion configured (\<lambda>rq. Fulfilled completion)
          (Obj [(''messages'', hello), (''model'', Str ''openai/gpt-4o'')])) =
     \<lparr>res_status = Num 200,
      res_json = ChatJson True (Str ''hello'') (Str ''openai/gpt-4o'') (Obj []) (Str ''stop'')\<rparr>"
    by code_simp
  have r2: "snd (chat no_conversion configured (\<lambda>rq. Fulfilled completion)
          (Obj [(''messages'', hello)])) =
     \<lparr>res_status = Num 200,
      res_json = ChatJson True (Str ''hello'') (Str ''openai/gpt-oss-20b:free'') (Obj [])
                   (Str ''stop'')\<rparr>"
    by code_simp
  have up: "js_prop completion ''model'' = Str ''upstream/other''"
    by (simp add: completion_def)
  show ?thesis
    using r1 r2 up chat_model_field[OF r1] chat_model_field[OF r2]
    by simp
qed

end
